theory Spec2Isabelle
  imports Complex_Main
begin

section \<open>The GB50497-2019 layout validator\<close>

text \<open>
  A shallow embedding of the class \<open>GB50497Validator\<close>. Every method of the class is one
  definition of the same name; the callback of a \<open>forEach\<close> loop is a definition of its own
  and the loop is a \<open>fold\<close> of it. The \<open>results\<close> object that the methods mutate is passed
  in and returned; a method that also returns a value returns the pair of the value and
  the results.

  The safety level is an integer (the caller reads it with \<open>parseInt\<close>) and counts are
  natural numbers. The pit dimensions and the sensor coordinates are the real numbers that
  the doubles denote; \<open>NaN\<close> and infinite inputs are outside the model. The quantity check
  is computed in double-precision arithmetic, with the rounding of every operation written
  out. The geometric checks compare sums and differences of the inputs with constants that
  are doubles themselves and are computed on the reals.
\<close>

subsection \<open>Property lookup on an object literal\<close>

datatype error = TypeError

text \<open>
  \<open>obj[key]\<close> on an object literal finds an own property, or a property inherited from
  \<open>Object.prototype\<close>, or gives \<open>undefined\<close>.
\<close>

datatype 'a property = Own 'a | Inherited | Undefined

definition object_prototype_keys :: "string list" where
  "object_prototype_keys =
     [''constructor'', ''__proto__'', ''hasOwnProperty'', ''isPrototypeOf'',
      ''propertyIsEnumerable'', ''toLocaleString'', ''toString'', ''valueOf'',
      ''__defineGetter__'', ''__defineSetter__'', ''__lookupGetter__'', ''__lookupSetter__'']"

definition getProperty :: "(string \<times> 'a) list \<Rightarrow> string \<Rightarrow> 'a property" where
  "getProperty obj key =
     (case map_of obj key of
        Some v \<Rightarrow> Own v
      | None \<Rightarrow> if key \<in> set object_prototype_keys then Inherited else Undefined)"

subsection \<open>Inputs\<close>

record pit_dimensions =
  dim_length :: real
  dim_width :: real
  dim_depth :: real

text \<open>\<open>cfg_type\<close> is the field \<open>type\<close> of the configuration object.\<close>

record pit_config =
  cfg_type :: string
  safetyLevel :: int
  dimensions :: pit_dimensions

record vector3 =
  pos_x :: real
  pos_y :: real
  pos_z :: real

text \<open>\<open>sensor_type\<close> and \<open>sensor_position\<close> are the fields \<open>type\<close> and \<open>position\<close>.\<close>

record sensor =
  sensor_type :: string
  sensor_position :: vector3
  sensor_id :: nat

subsection \<open>Double-precision numbers\<close>

text \<open>
  A number of the program is a finite double, given by the real it denotes, or one of the
  two infinities, or \<open>NaN\<close>. The two zeros are not told apart.
\<close>

datatype double = Finite real | PlusInfinity | MinusInfinity | NotANumber

text \<open>
  Rounding to the nearest double, ties to the even significand. A nonzero real lies in
  the binade of exponent \<open>binade x\<close>, at least \<open>-1022\<close>, where the doubles are the
  multiples of \<open>2 powr (binade x - 52)\<close>; below the exponent \<open>-1022\<close> these are the
  subnormal numbers. A result of magnitude \<open>2 ^ 1024\<close> or more overflows.
\<close>

definition roundHalfEven :: "real \<Rightarrow> int" where
  "roundHalfEven x =
     (let f = \<lfloor>x\<rfloor>; d = x - of_int f
      in if d < 1 / 2 then f else if 1 / 2 < d then f + 1 else if even f then f else f + 1)"

definition binade :: "real \<Rightarrow> int" where
  "binade x = max \<lfloor>log 2 \<bar>x\<bar>\<rfloor> (- 1022)"

definition roundToDouble :: "real \<Rightarrow> real" where
  "roundToDouble x =
     (if x = 0 then 0
      else let ulp = 2 powr of_int (binade x - 52)
           in of_int (roundHalfEven (x / ulp)) * ulp)"

definition overflowThreshold :: real where
  "overflowThreshold = 2 ^ 1024"

text \<open>The double of an exact result; also the double that a decimal literal denotes.\<close>

definition toDouble :: "real \<Rightarrow> double" where
  "toDouble x =
     (let r = roundToDouble x
      in if overflowThreshold \<le> r then PlusInfinity
         else if r \<le> - overflowThreshold then MinusInfinity
         else Finite r)"

text \<open>The operators \<open>+\<close>, \<open>*\<close>, \<open>/\<close> and \<open>>=\<close> on numbers.\<close>

fun dadd :: "double \<Rightarrow> double \<Rightarrow> double" where
  "dadd (Finite a) (Finite b) = toDouble (a + b)"
| "dadd NotANumber b = NotANumber"
| "dadd a NotANumber = NotANumber"
| "dadd PlusInfinity MinusInfinity = NotANumber"
| "dadd MinusInfinity PlusInfinity = NotANumber"
| "dadd PlusInfinity b = PlusInfinity"
| "dadd a PlusInfinity = PlusInfinity"
| "dadd MinusInfinity b = MinusInfinity"
| "dadd a MinusInfinity = MinusInfinity"

fun dmul :: "double \<Rightarrow> double \<Rightarrow> double" where
  "dmul (Finite a) (Finite b) = toDouble (a * b)"
| "dmul NotANumber b = NotANumber"
| "dmul a NotANumber = NotANumber"
| "dmul (Finite a) PlusInfinity =
     (if a = 0 then NotANumber else if 0 < a then PlusInfinity else MinusInfinity)"
| "dmul (Finite a) MinusInfinity =
     (if a = 0 then NotANumber else if 0 < a then MinusInfinity else PlusInfinity)"
| "dmul PlusInfinity (Finite b) =
     (if b = 0 then NotANumber else if 0 < b then PlusInfinity else MinusInfinity)"
| "dmul MinusInfinity (Finite b) =
     (if b = 0 then NotANumber else if 0 < b then MinusInfinity else PlusInfinity)"
| "dmul PlusInfinity PlusInfinity = PlusInfinity"
| "dmul MinusInfinity MinusInfinity = PlusInfinity"
| "dmul PlusInfinity MinusInfinity = MinusInfinity"
| "dmul MinusInfinity PlusInfinity = MinusInfinity"

fun ddiv :: "double \<Rightarrow> double \<Rightarrow> double" where
  "ddiv (Finite a) (Finite b) =
     (if b \<noteq> 0 then toDouble (a / b)
      else if a = 0 then NotANumber
      else if 0 < a then PlusInfinity else MinusInfinity)"
| "ddiv NotANumber b = NotANumber"
| "ddiv a NotANumber = NotANumber"
| "ddiv (Finite a) PlusInfinity = Finite 0"
| "ddiv (Finite a) MinusInfinity = Finite 0"
| "ddiv PlusInfinity (Finite b) = (if 0 \<le> b then PlusInfinity else MinusInfinity)"
| "ddiv MinusInfinity (Finite b) = (if 0 \<le> b then MinusInfinity else PlusInfinity)"
| "ddiv PlusInfinity PlusInfinity = NotANumber"
| "ddiv PlusInfinity MinusInfinity = NotANumber"
| "ddiv MinusInfinity PlusInfinity = NotANumber"
| "ddiv MinusInfinity MinusInfinity = NotANumber"

fun dge :: "double \<Rightarrow> double \<Rightarrow> bool" where
  "dge (Finite a) (Finite b) = (b \<le> a)"
| "dge NotANumber b = False"
| "dge a NotANumber = False"
| "dge PlusInfinity b = True"
| "dge a MinusInfinity = True"
| "dge (Finite a) PlusInfinity = False"
| "dge MinusInfinity (Finite b) = False"
| "dge MinusInfinity PlusInfinity = False"

subsection \<open>The static tables\<close>

record requirement =
  required :: "string list"
  recommended :: "string list"
  optional :: "string list"

definition monitoringRequirements :: "(string \<times> (int \<times> requirement) list) list" where
  "monitoringRequirements =
    [(''soil'',
       [(1, \<lparr>required = [''horizontal-displacement'', ''vertical-displacement'',
                          ''deep-horizontal'', ''support-force'', ''water-level'',
                          ''ground-settlement''],
             recommended = [''anchor-force''],
             optional = [''wall-internal-force'', ''pore-pressure'', ''soil-pressure'']\<rparr>),
        (2, \<lparr>required = [''horizontal-displacement'', ''vertical-displacement'',
                          ''deep-horizontal'', ''support-force'', ''water-level'',
                          ''ground-settlement''],
             recommended = [''anchor-force''],
             optional = [''wall-internal-force'', ''pore-pressure'']\<rparr>),
        (3, \<lparr>required = [''horizontal-displacement'', ''vertical-displacement'',
                          ''water-level''],
             recommended = [''deep-horizontal'', ''support-force'', ''ground-settlement''],
             optional = [''anchor-force'']\<rparr>)]),
     (''rock'',
       [(1, \<lparr>required = [''horizontal-displacement'', ''vertical-displacement'',
                          ''anchor-force'', ''ground-settlement''],
             recommended = [''water-level''],
             optional = []\<rparr>),
        (2, \<lparr>required = [''horizontal-displacement'', ''ground-settlement''],
             recommended = [''vertical-displacement'', ''anchor-force'', ''water-level''],
             optional = []\<rparr>),
        (3, \<lparr>required = [''horizontal-displacement''],
             recommended = [''ground-settlement''],
             optional = [''vertical-displacement'', ''anchor-force'']\<rparr>)]),
     (''soil-rock'',
       [(1, \<lparr>required = [''horizontal-displacement'', ''vertical-displacement'',
                          ''deep-horizontal'', ''support-force'', ''anchor-force'',
                          ''water-level'', ''ground-settlement''],
             recommended = [],
             optional = [''wall-internal-force'', ''pore-pressure'']\<rparr>),
        (2, \<lparr>required = [''horizontal-displacement'', ''vertical-displacement'',
                          ''deep-horizontal'', ''support-force'', ''water-level'',
                          ''ground-settlement''],
             recommended = [''anchor-force''],
             optional = []\<rparr>),
        (3, \<lparr>required = [''horizontal-displacement'', ''vertical-displacement'',
                          ''water-level''],
             recommended = [''deep-horizontal'', ''support-force'', ''ground-settlement''],
             optional = [''anchor-force'']\<rparr>)])]"

subsection \<open>Messages\<close>

text \<open>
  The display names of \<open>getSensorTypeName\<close>, in the order of its table. \<open>Verbatim t\<close> is the
  type string itself, returned for a type with no entry; \<open>InheritedValue t\<close> is the value that
  \<open>Object.prototype\<close> holds under the name \<open>t\<close>.
\<close>

datatype type_name =
    WallTopHorizontalDisplacement
  | WallTopVerticalDisplacement
  | DeepHorizontalDisplacement
  | SupportAxialForce
  | AnchorAxialForce
  | GroundwaterLevel
  | SurroundingSurfaceVerticalDisplacement
  | Verbatim string
  | InheritedValue string

text \<open>
  One constructor for each message text of the validator, with the values interpolated
  into the template as arguments, in the order the texts occur in the class:
  requirements not found for a type and level; a required item is missing; the count of an
  item is insufficient and should reach the given number; an item is suggested; the wall
  displacement points are few; a number of sides lack points in the middle; a number of
  corners lack points; the deep horizontal points should reach a number; the settlement
  range should extend to a number of metres; the settlement points are few; more points
  are advised in the surroundings; monitoring is mandatory, should be done, or is left to
  the site.
\<close>

datatype message =
    RequirementsNotFound string int
  | MissingRequired type_name
  | InsufficientCount type_name nat
  | SuggestAdd type_name
  | WallPointsFew
  | SidesMissingMiddle nat
  | CornersMissing nat
  | DeepHorizontalIncrease nat
  | SettlementRangeShort real
  | SettlementPointsFew
  | MorePeripheralPoints
  | MonitoringMandatory
  | MonitoringShould
  | MonitoringDiscretionary

subsection \<open>The report\<close>

record distribution =
  north :: nat
  south :: nat
  east :: nat
  west :: nat
  corners :: nat
  middle :: nat

text \<open>The three entries of \<open>layoutResults\<close>; each has a field \<open>total\<close> in the source.\<close>

record wall_displacement =
  wall_total :: nat
  wall_distribution :: distribution

record deep_horizontal =
  deep_total :: nat
  deep_distribution :: distribution

record ground_settlement =
  settlement_total :: nat
  settlement_range :: real

record layout_results =
  wallDisplacement :: "wall_displacement option"
  deepHorizontal :: "deep_horizontal option"
  groundSettlement :: "ground_settlement option"

record quantity =
  quantity_total :: nat
  density :: double
  quantity_recommended :: double
  adequate :: bool

record coverage =
  coverage_total :: nat
  outside :: nat
  maxDistance :: real
  recommendedMaxDistance :: real

text \<open>A field of \<open>compliance\<close> that has not been assigned is \<open>None\<close>.\<close>

record compliance =
  compliance_required :: "(string \<rightharpoonup> nat) option"
  compliance_recommended :: "(string \<rightharpoonup> nat) option"
  compliance_layout :: "layout_results option"
  compliance_quantity :: "quantity option"
  compliance_range :: "coverage option"

record results =
  isValid :: bool
  errors :: "message list"
  warnings :: "message list"
  suggestions :: "message list"
  compliance :: compliance

subsection \<open>Helper methods\<close>

definition names :: "(string \<times> type_name) list" where
  "names =
     [(''horizontal-displacement'', WallTopHorizontalDisplacement),
      (''vertical-displacement'', WallTopVerticalDisplacement),
      (''deep-horizontal'', DeepHorizontalDisplacement),
      (''support-force'', SupportAxialForce),
      (''anchor-force'', AnchorAxialForce),
      (''water-level'', GroundwaterLevel),
      (''ground-settlement'', SurroundingSurfaceVerticalDisplacement)]"

definition getSensorTypeName :: "string \<Rightarrow> type_name" where
  "getSensorTypeName ty =
     (case getProperty names ty of
        Own n \<Rightarrow> n
      | Inherited \<Rightarrow> InheritedValue ty
      | Undefined \<Rightarrow> Verbatim ty)"

definition minimums :: "(string \<times> nat) list" where
  "minimums =
     [(''horizontal-displacement'', 8),
      (''vertical-displacement'', 8),
      (''deep-horizontal'', 4),
      (''support-force'', 4),
      (''anchor-force'', 2),
      (''water-level'', 2),
      (''ground-settlement'', 6)]"

text \<open>
  \<open>minimums[type] || 1\<close>: every entry of the table is positive, so the default is taken
  only for \<open>undefined\<close>. An inherited property is returned as it is and is not a number:
  the result is \<open>None\<close>.
\<close>

definition getMinimumSensorCount :: "string \<Rightarrow> nat option" where
  "getMinimumSensorCount ty =
     (case getProperty minimums ty of
        Own n \<Rightarrow> Some n
      | Inherited \<Rightarrow> None
      | Undefined \<Rightarrow> Some 1)"

text \<open>The callback of the loop of \<open>analyzeSensorDistribution\<close>.\<close>

definition analyzeSensorStep :: "real \<Rightarrow> real \<Rightarrow> sensor \<Rightarrow> distribution \<Rightarrow> distribution" where
  "analyzeSensorStep len width sensor d =
     (let x = pos_x (sensor_position sensor);
          z = pos_z (sensor_position sensor);
          d1 = (if \<bar>x - len / 2\<bar> < 2 then d\<lparr>east := east d + 1\<rparr>
                else if \<bar>x + len / 2\<bar> < 2 then d\<lparr>west := west d + 1\<rparr>
                else if \<bar>z - width / 2\<bar> < 2 then d\<lparr>north := north d + 1\<rparr>
                else if \<bar>z + width / 2\<bar> < 2 then d\<lparr>south := south d + 1\<rparr>
                else d);
          isCorner = (\<bar>\<bar>x\<bar> - len / 2\<bar> < 3 \<and> \<bar>\<bar>z\<bar> - width / 2\<bar> < 3);
          isMiddle = (\<bar>x\<bar> < len / 4 \<or> \<bar>z\<bar> < width / 4);
          d2 = (if isCorner then d1\<lparr>corners := corners d1 + 1\<rparr> else d1)
      in if isMiddle then d2\<lparr>middle := middle d2 + 1\<rparr> else d2)"

definition analyzeSensorDistribution :: "sensor list \<Rightarrow> real \<Rightarrow> real \<Rightarrow> distribution" where
  "analyzeSensorDistribution sensors len width =
     fold (analyzeSensorStep len width) sensors
       \<lparr>north = 0, south = 0, east = 0, west = 0, corners = 0, middle = 0\<rparr>"

record side =
  side_name :: string
  side_sensors :: "sensor list"

text \<open>\<open>sides[i].sensors.push(sensor)\<close>; the index is one of 0 to 3 of a four-element array.\<close>

definition pushSide :: "nat \<Rightarrow> sensor \<Rightarrow> side list \<Rightarrow> side list" where
  "pushSide i sensor sides =
     sides[i := (sides ! i)\<lparr>side_sensors := side_sensors (sides ! i) @ [sensor]\<rparr>]"

text \<open>
  The first loop of \<open>identifyCriticalPositions\<close> assigns the sensors to the sides;
  \<open>assignSide\<close> is its callback.
\<close>

definition assignSide :: "real \<Rightarrow> real \<Rightarrow> sensor \<Rightarrow> side list \<Rightarrow> side list" where
  "assignSide len width sensor sides =
     (let x = pos_x (sensor_position sensor);
          z = pos_z (sensor_position sensor)
      in if \<bar>x - len / 2\<bar> < 2 then pushSide 0 sensor sides
         else if \<bar>x + len / 2\<bar> < 2 then pushSide 1 sensor sides
         else if \<bar>z - width / 2\<bar> < 2 then pushSide 2 sensor sides
         else if \<bar>z + width / 2\<bar> < 2 then pushSide 3 sensor sides
         else sides)"

definition assignSides :: "sensor list \<Rightarrow> real \<Rightarrow> real \<Rightarrow> side list" where
  "assignSides sensors len width =
     fold (assignSide len width) sensors
       [\<lparr>side_name = ''east'', side_sensors = []\<rparr>,
        \<lparr>side_name = ''west'', side_sensors = []\<rparr>,
        \<lparr>side_name = ''north'', side_sensors = []\<rparr>,
        \<lparr>side_name = ''south'', side_sensors = []\<rparr>]"

record critical_positions =
  missingMiddle :: nat
  missingCorner :: nat

definition identifyCriticalPositions :: "sensor list \<Rightarrow> real \<Rightarrow> real \<Rightarrow> critical_positions" where
  "identifyCriticalPositions sensors len width =
     (let sides = assignSides sensors len width;
          missingMiddle =
            fold (\<lambda>side n. if length (side_sensors side) < 3 then n + 1 else n) sides 0;
          corners =
            [(len / 2, width / 2), (- len / 2, width / 2),
             (- len / 2, - width / 2), (len / 2, - width / 2)];
          missingCorner =
            fold (\<lambda>corner n.
                    let hasCornerSensor =
                          list_ex (\<lambda>sensor.
                                     sqrt ((pos_x (sensor_position sensor) - fst corner)\<^sup>2
                                         + (pos_z (sensor_position sensor) - snd corner)\<^sup>2) < 5)
                                  sensors
                    in if \<not> hasCornerSensor then n + 1 else n)
                 corners 0
      in \<lparr>missingMiddle = missingMiddle, missingCorner = missingCorner\<rparr>)"

text \<open>\<open>Math.max(...values, 0)\<close>.\<close>

definition calculateMonitoringRange :: "sensor list \<Rightarrow> real \<Rightarrow> real \<Rightarrow> real" where
  "calculateMonitoringRange sensors len width =
     (let pitBoundary = max len width / 2
      in fold max
           (map (\<lambda>sensor.
                   sqrt ((pos_x (sensor_position sensor))\<^sup>2
                       + (pos_z (sensor_position sensor))\<^sup>2) - pitBoundary)
                sensors)
           0)"

definition baseDensity :: "(int \<times> double) list" where
  "baseDensity = [(1, toDouble 0.8), (2, toDouble 0.6), (3, toDouble 0.4)]"

definition calculateRecommendedDensity :: "pit_config \<Rightarrow> double" where
  "calculateRecommendedDensity config =
     (case map_of baseDensity (safetyLevel config) of
        Some d \<Rightarrow> d
      | None \<Rightarrow> toDouble 0.5)"

subsection \<open>The checks\<close>

text \<open>The callback of \<open>requiredTypes.forEach\<close>, on the compliance object and the results.\<close>

definition requiredCallback ::
  "string list \<Rightarrow> string \<Rightarrow> (string \<rightharpoonup> nat) \<times> results \<Rightarrow> (string \<rightharpoonup> nat) \<times> results" where
  "requiredCallback sensorTypes ty state =
     (let compliance = fst state;
          results = snd state;
          count = length (filter (\<lambda>t. t = ty) sensorTypes);
          compliance = compliance(ty \<mapsto> count)
      in if count = 0
         then (compliance,
               results\<lparr>errors := errors results @ [MissingRequired (getSensorTypeName ty)]\<rparr>)
         else (case getMinimumSensorCount ty of
                 Some m \<Rightarrow>
                   if count < m
                   then (compliance,
                         results\<lparr>warnings := warnings results
                                    @ [InsufficientCount (getSensorTypeName ty) m]\<rparr>)
                   else (compliance, results)
               | None \<Rightarrow> (compliance, results)))"

definition checkRequiredSensors ::
  "string list \<Rightarrow> sensor list \<Rightarrow> results \<Rightarrow> (string \<rightharpoonup> nat) \<times> results" where
  "checkRequiredSensors requiredTypes sensors results =
     (let sensorTypes = map sensor_type sensors
      in fold (requiredCallback sensorTypes) requiredTypes (Map.empty, results))"

text \<open>The callback of \<open>recommendedTypes.forEach\<close>.\<close>

definition recommendedCallback ::
  "string list \<Rightarrow> string \<Rightarrow> (string \<rightharpoonup> nat) \<times> results \<Rightarrow> (string \<rightharpoonup> nat) \<times> results" where
  "recommendedCallback sensorTypes ty state =
     (let compliance = fst state;
          results = snd state;
          count = length (filter (\<lambda>t. t = ty) sensorTypes);
          compliance = compliance(ty \<mapsto> count)
      in if count = 0
         then (compliance,
               results\<lparr>suggestions := suggestions results @ [SuggestAdd (getSensorTypeName ty)]\<rparr>)
         else (compliance, results))"

definition checkRecommendedSensors ::
  "string list \<Rightarrow> sensor list \<Rightarrow> results \<Rightarrow> (string \<rightharpoonup> nat) \<times> results" where
  "checkRecommendedSensors recommendedTypes sensors results =
     (let sensorTypes = map sensor_type sensors
      in fold (recommendedCallback sensorTypes) recommendedTypes (Map.empty, results))"

definition checkWallDisplacementLayout ::
  "sensor list \<Rightarrow> real \<Rightarrow> real \<Rightarrow> results \<Rightarrow> layout_results \<Rightarrow> results \<times> layout_results" where
  "checkWallDisplacementLayout sensors len width results layoutResults =
     (let wallSensors =
            filter (\<lambda>s. sensor_type s = ''horizontal-displacement''
                      \<or> sensor_type s = ''vertical-displacement'') sensors;
          layoutResults =
            layoutResults\<lparr>wallDisplacement :=
              Some \<lparr>wall_total = length wallSensors,
                    wall_distribution = analyzeSensorDistribution wallSensors len width\<rparr>\<rparr>;
          results =
            (if length wallSensors < 12
             then results\<lparr>warnings := warnings results @ [WallPointsFew]\<rparr>
             else results);
          criticalPositions = identifyCriticalPositions wallSensors len width;
          results =
            (if missingMiddle criticalPositions > 0
             then results\<lparr>warnings := warnings results
                            @ [SidesMissingMiddle (missingMiddle criticalPositions)]\<rparr>
             else results);
          results =
            (if missingCorner criticalPositions > 0
             then results\<lparr>warnings := warnings results
                            @ [CornersMissing (missingCorner criticalPositions)]\<rparr>
             else results)
      in (results, layoutResults))"

definition checkDeepHorizontalLayout ::
  "sensor list \<Rightarrow> real \<Rightarrow> real \<Rightarrow> results \<Rightarrow> layout_results \<Rightarrow> results \<times> layout_results" where
  "checkDeepHorizontalLayout sensors len width results layoutResults =
     (let deepSensors = filter (\<lambda>s. sensor_type s = ''deep-horizontal'') sensors;
          layoutResults =
            layoutResults\<lparr>deepHorizontal :=
              Some \<lparr>deep_total = length deepSensors,
                    deep_distribution = analyzeSensorDistribution deepSensors len width\<rparr>\<rparr>;
          maxEdgeLength = max len width;
          recommendedCount = (if maxEdgeLength > 50 then 6 else 4 :: nat);
          results =
            (if length deepSensors < recommendedCount
             then results\<lparr>warnings := warnings results
                            @ [DeepHorizontalIncrease recommendedCount]\<rparr>
             else results)
      in (results, layoutResults))"

definition checkGroundSettlementLayout ::
  "sensor list \<Rightarrow> real \<Rightarrow> real \<Rightarrow> real \<Rightarrow> results \<Rightarrow> layout_results
     \<Rightarrow> results \<times> layout_results" where
  "checkGroundSettlementLayout sensors len width depth results layoutResults =
     (let settlementSensors = filter (\<lambda>s. sensor_type s = ''ground-settlement'') sensors;
          actualRange = calculateMonitoringRange settlementSensors len width;
          layoutResults =
            layoutResults\<lparr>groundSettlement :=
              Some \<lparr>settlement_total = length settlementSensors,
                    settlement_range = actualRange\<rparr>\<rparr>;
          requiredRange = depth * 2;
          results =
            (if actualRange < requiredRange
             then results\<lparr>warnings := warnings results @ [SettlementRangeShort requiredRange]\<rparr>
             else results);
          results =
            (if length settlementSensors < 8
             then results\<lparr>warnings := warnings results @ [SettlementPointsFew]\<rparr>
             else results)
      in (results, layoutResults))"

definition checkSensorLayout ::
  "pit_config \<Rightarrow> sensor list \<Rightarrow> results \<Rightarrow> layout_results \<times> results" where
  "checkSensorLayout config sensors results =
     (let len = dim_length (dimensions config);
          width = dim_width (dimensions config);
          depth = dim_depth (dimensions config);
          layoutResults =
            \<lparr>wallDisplacement = None, deepHorizontal = None, groundSettlement = None\<rparr>;
          (results, layoutResults) =
            checkWallDisplacementLayout sensors len width results layoutResults;
          (results, layoutResults) =
            checkDeepHorizontalLayout sensors len width results layoutResults;
          (results, layoutResults) =
            checkGroundSettlementLayout sensors len width depth results layoutResults
      in (layoutResults, results))"

text \<open>
  \<open>sensors.length\<close> is an integer below \<open>2 ^ 32\<close> and the literal \<open>2\<close> is a double; the
  length and the width are doubles as they are passed in.
\<close>

definition checkSensorQuantity :: "pit_config \<Rightarrow> sensor list \<Rightarrow> results \<Rightarrow> quantity \<times> results" where
  "checkSensorQuantity config sensors results =
     (let len = dim_length (dimensions config);
          width = dim_width (dimensions config);
          perimeter = dmul (Finite 2) (dadd (Finite len) (Finite width));
          recommendedDensity = calculateRecommendedDensity config;
          actualDensity = ddiv (Finite (real (length sensors))) perimeter
      in (\<lparr>quantity_total = length sensors,
           density = actualDensity,
           quantity_recommended = recommendedDensity,
           adequate = dge actualDensity (dmul recommendedDensity (toDouble 0.8))\<rparr>,
          results))"

definition checkMonitoringRange :: "pit_config \<Rightarrow> sensor list \<Rightarrow> results \<Rightarrow> coverage \<times> results" where
  "checkMonitoringRange config sensors results =
     (let len = dim_length (dimensions config);
          width = dim_width (dimensions config);
          maxDistance' = max len width * 1.5;
          outsideSensors =
            filter (\<lambda>sensor.
                      let distance = sqrt ((pos_x (sensor_position sensor))\<^sup>2
                                         + (pos_z (sensor_position sensor))\<^sup>2)
                      in distance > max len width / 2)
                   sensors;
          coverage =
            \<lparr>coverage_total = length sensors,
             outside = length outsideSensors,
             maxDistance =
               fold max
                 (map (\<lambda>s. sqrt ((pos_x (sensor_position s))\<^sup>2 + (pos_z (sensor_position s))\<^sup>2))
                      sensors)
                 0,
             recommendedMaxDistance = maxDistance'\<rparr>;
          results =
            (if real (outside coverage) < real (length sensors) * 0.3
             then results\<lparr>warnings := warnings results @ [MorePeripheralPoints]\<rparr>
             else results)
      in (coverage, results))"

definition checkMonitoringNecessity :: "pit_config \<Rightarrow> results \<Rightarrow> results" where
  "checkMonitoringNecessity config results =
     (let depth = dim_depth (dimensions config)
      in if safetyLevel config \<le> 2
         then results\<lparr>suggestions := suggestions results @ [MonitoringMandatory]\<rparr>
         else if depth \<ge> 5
         then results\<lparr>suggestions := suggestions results @ [MonitoringShould]\<rparr>
         else results\<lparr>suggestions := suggestions results @ [MonitoringDiscretionary]\<rparr>)"

subsection \<open>The entry point\<close>

text \<open>
  \<open>this.monitoringRequirements[config.type][config.safetyLevel]\<close>: the second index is
  applied to whatever the first one gives. An inherited property has no property named by
  an integer, so the result is \<open>undefined\<close>; indexing \<open>undefined\<close> itself throws.
\<close>

definition lookupRequirements :: "pit_config \<Rightarrow> error + requirement option" where
  "lookupRequirements config =
     (case getProperty monitoringRequirements (cfg_type config) of
        Own levels \<Rightarrow> Inr (map_of levels (safetyLevel config))
      | Inherited \<Rightarrow> Inr None
      | Undefined \<Rightarrow> Inl TypeError)"

definition emptyCompliance :: compliance where
  "emptyCompliance =
     \<lparr>compliance_required = None, compliance_recommended = None,
      compliance_layout = None, compliance_quantity = None, compliance_range = None\<rparr>"

definition validateLayout :: "pit_config \<Rightarrow> sensor list \<Rightarrow> error + results" where
  "validateLayout config sensors =
     (let results =
            \<lparr>isValid = True, errors = [], warnings = [], suggestions = [],
             compliance = emptyCompliance\<rparr>
      in case lookupRequirements config of
           Inl e \<Rightarrow> Inl e
         | Inr None \<Rightarrow>
             Inr (results\<lparr>errors := errors results
                            @ [RequirementsNotFound (cfg_type config) (safetyLevel config)],
                          isValid := False\<rparr>)
         | Inr (Some requirements) \<Rightarrow>
             (let (req, results) =
                    checkRequiredSensors (required requirements) sensors results;
                  results =
                    results\<lparr>compliance :=
                      (compliance results)\<lparr>compliance_required := Some req\<rparr>\<rparr>;
                  (rec, results) =
                    checkRecommendedSensors (recommended requirements) sensors results;
                  results =
                    results\<lparr>compliance :=
                      (compliance results)\<lparr>compliance_recommended := Some rec\<rparr>\<rparr>;
                  (layout, results) = checkSensorLayout config sensors results;
                  results =
                    results\<lparr>compliance :=
                      (compliance results)\<lparr>compliance_layout := Some layout\<rparr>\<rparr>;
                  (quantity, results) = checkSensorQuantity config sensors results;
                  results =
                    results\<lparr>compliance :=
                      (compliance results)\<lparr>compliance_quantity := Some quantity\<rparr>\<rparr>;
                  (range, results) = checkMonitoringRange config sensors results;
                  results =
                    results\<lparr>compliance :=
                      (compliance results)\<lparr>compliance_range := Some range\<rparr>\<rparr>;
                  results = checkMonitoringNecessity config results
              in Inr (results\<lparr>isValid := (errors results = [])\<rparr>)))"


section \<open>Specification-level notions\<close>

text \<open>
  The notions the properties below are stated with: what the checks append, written
  without the loops, and the quantities the specification names.
\<close>

text \<open>The count of a category in the sensor list.\<close>

definition typeCount :: "sensor list \<Rightarrow> string \<Rightarrow> nat" where
  "typeCount sensors ty = length (filter (\<lambda>s. sensor_type s = ty) sensors)"

text \<open>What the check of the required categories appends to the errors and to the warnings.\<close>

definition requiredErrors :: "string list \<Rightarrow> sensor list \<Rightarrow> message list" where
  "requiredErrors tys sensors =
     map (\<lambda>ty. MissingRequired (getSensorTypeName ty))
         (filter (\<lambda>ty. typeCount sensors ty = 0) tys)"

definition requiredWarning :: "sensor list \<Rightarrow> string \<Rightarrow> message list" where
  "requiredWarning sensors ty =
     (if typeCount sensors ty = 0 then []
      else case getMinimumSensorCount ty of
             Some m \<Rightarrow> if typeCount sensors ty < m
                       then [InsufficientCount (getSensorTypeName ty) m] else []
           | None \<Rightarrow> [])"

definition requiredWarnings :: "string list \<Rightarrow> sensor list \<Rightarrow> message list" where
  "requiredWarnings tys sensors = concat (map (requiredWarning sensors) tys)"

text \<open>What the check of the recommended categories appends to the suggestions.\<close>

definition recommendedSuggestions :: "string list \<Rightarrow> sensor list \<Rightarrow> message list" where
  "recommendedSuggestions tys sensors =
     map (\<lambda>ty. SuggestAdd (getSensorTypeName ty))
         (filter (\<lambda>ty. typeCount sensors ty = 0) tys)"

text \<open>The sensors of the two wall displacement categories, and what each layout check appends to the warnings.\<close>

definition wallSensors :: "sensor list \<Rightarrow> sensor list" where
  "wallSensors sensors =
     filter (\<lambda>s. sensor_type s = ''horizontal-displacement''
               \<or> sensor_type s = ''vertical-displacement'') sensors"

definition wallWarnings :: "sensor list \<Rightarrow> real \<Rightarrow> real \<Rightarrow> message list" where
  "wallWarnings sensors len width =
     (let cp = identifyCriticalPositions (wallSensors sensors) len width
      in (if length (wallSensors sensors) < 12 then [WallPointsFew] else [])
       @ (if missingMiddle cp > 0 then [SidesMissingMiddle (missingMiddle cp)] else [])
       @ (if missingCorner cp > 0 then [CornersMissing (missingCorner cp)] else []))"

definition deepWarnings :: "sensor list \<Rightarrow> real \<Rightarrow> real \<Rightarrow> message list" where
  "deepWarnings sensors len width =
     (let n = (if max len width > 50 then 6 else 4)
      in if length (filter (\<lambda>s. sensor_type s = ''deep-horizontal'') sensors) < n
         then [DeepHorizontalIncrease n] else [])"

definition settlementWarnings :: "sensor list \<Rightarrow> real \<Rightarrow> real \<Rightarrow> real \<Rightarrow> message list" where
  "settlementWarnings sensors len width depth =
     (let ss = filter (\<lambda>s. sensor_type s = ''ground-settlement'') sensors
      in (if calculateMonitoringRange ss len width < depth * 2
          then [SettlementRangeShort (depth * 2)] else [])
       @ (if length ss < 8 then [SettlementPointsFew] else []))"

text \<open>The horizontal distance of a sensor from the pit centre.\<close>

definition radialDistance :: "sensor \<Rightarrow> real" where
  "radialDistance s = sqrt ((pos_x (sensor_position s))\<^sup>2 + (pos_z (sensor_position s))\<^sup>2)"

definition outsideCount :: "pit_config \<Rightarrow> sensor list \<Rightarrow> nat" where
  "outsideCount config sensors =
     length (filter (\<lambda>s. radialDistance s
                           > max (dim_length (dimensions config)) (dim_width (dimensions config)) / 2)
                    sensors)"

definition rangeWarnings :: "pit_config \<Rightarrow> sensor list \<Rightarrow> message list" where
  "rangeWarnings config sensors =
     (if real (outsideCount config sensors) < real (length sensors) * 0.3
      then [MorePeripheralPoints] else [])"

text \<open>The suggestion of the necessity advisor.\<close>

definition necessitySuggestion :: "pit_config \<Rightarrow> message" where
  "necessitySuggestion config =
     (if safetyLevel config \<le> 2 then MonitoringMandatory
      else if dim_depth (dimensions config) \<ge> 5 then MonitoringShould
      else MonitoringDiscretionary)"

text \<open>The results object at the start of a run, and the values of the two pure checks.\<close>

definition initialResults :: results where
  "initialResults =
     \<lparr>isValid = True, errors = [], warnings = [], suggestions = [],
      compliance = emptyCompliance\<rparr>"

definition quantityDetail :: "pit_config \<Rightarrow> sensor list \<Rightarrow> quantity" where
  "quantityDetail config sensors = fst (checkSensorQuantity config sensors initialResults)"

definition rangeDetail :: "pit_config \<Rightarrow> sensor list \<Rightarrow> coverage" where
  "rangeDetail config sensors = fst (checkMonitoringRange config sensors initialResults)"













text \<open>The static minimum of a category, as the specification lists it.\<close>

definition staticMinimum :: "string \<Rightarrow> nat" where
  "staticMinimum ty =
     (if ty = ''horizontal-displacement'' then 8
      else if ty = ''vertical-displacement'' then 8
      else if ty = ''deep-horizontal'' then 4
      else if ty = ''support-force'' then 4
      else if ty = ''anchor-force'' then 2
      else if ty = ''water-level'' then 2
      else if ty = ''ground-settlement'' then 6
      else 1)"

text \<open>The three necessity suggestions.\<close>

definition necessityMessages :: "message list" where
  "necessityMessages = [MonitoringMandatory, MonitoringShould, MonitoringDiscretionary]"

text \<open>The nine combinations of composition and safety level that the requirement table defines.\<close>

definition definedCombination :: "pit_config \<Rightarrow> bool" where
  "definedCombination config =
     (cfg_type config \<in> set [''soil'', ''rock'', ''soil-rock'']
      \<and> safetyLevel config \<in> set [1, 2, 3])"


text \<open>A real is a double when rounding leaves it as it is; the dimensions of a valid configuration are positive doubles.\<close>

definition isDouble :: "real \<Rightarrow> bool" where
  "isDouble x = (toDouble x = Finite x)"

definition validDimensions :: "pit_config \<Rightarrow> bool" where
  "validDimensions config =
     (isDouble (dim_length (dimensions config)) \<and> 0 < dim_length (dimensions config)
      \<and> isDouble (dim_width (dimensions config)) \<and> 0 < dim_width (dimensions config))"


section \<open>Properties\<close>

subsection \<open>Rounding to doubles\<close>

lemma roundHalfEven_cases:
  "roundHalfEven x = \<lfloor>x\<rfloor> \<or> roundHalfEven x = \<lfloor>x\<rfloor> + 1"
  by (simp add: roundHalfEven_def Let_def)

lemma roundHalfEven_of_int: "roundHalfEven (of_int k) = k"
  by (simp add: roundHalfEven_def Let_def)

lemma roundHalfEven_near:
  assumes "\<bar>x - of_int m\<bar> < 1 / 2"
  shows "roundHalfEven x = m"
proof (cases "of_int m \<le> x")
  case True
  with assms have "\<lfloor>x\<rfloor> = m" by (simp add: floor_eq_iff)
  with assms True show ?thesis by (simp add: roundHalfEven_def Let_def) 
next
  case False
  with assms have "\<lfloor>x\<rfloor> = m - 1" by (simp add: floor_eq_iff)
  with assms False show ?thesis by (auto simp: roundHalfEven_def Let_def)
qed

lemma roundHalfEven_mono:
  assumes "a \<le> b"
  shows "roundHalfEven a \<le> roundHalfEven b"
proof (cases "\<lfloor>a\<rfloor> = \<lfloor>b\<rfloor>")
  case True
  with assms show ?thesis
    by (auto simp: roundHalfEven_def Let_def)
next
  case False
  with assms have "\<lfloor>a\<rfloor> < \<lfloor>b\<rfloor>" using floor_mono [OF assms] by linarith
  then have "\<lfloor>a\<rfloor> + 1 \<le> \<lfloor>b\<rfloor>" by simp
  with roundHalfEven_cases [of a] roundHalfEven_cases [of b] show ?thesis by linarith
qed

lemma binade_ge: "- 1022 \<le> binade x"
  by (simp add: binade_def)

lemma binade_upper:
  assumes "x \<noteq> 0"
  shows "\<bar>x\<bar> < 2 powr of_int (binade x + 1)"
proof -
  have "log 2 \<bar>x\<bar> < of_int (\<lfloor>log 2 \<bar>x\<bar>\<rfloor> + 1)" by linarith
  also have "\<dots> \<le> of_int (binade x + 1)" by (simp add: binade_def)
  finally have "log 2 \<bar>x\<bar> < of_int (binade x + 1)" .
  with assms show ?thesis by (simp add: log_less_iff)
qed

lemma binade_lower:
  assumes "x \<noteq> 0" and "- 1022 < binade x"
  shows "2 powr of_int (binade x) \<le> \<bar>x\<bar>"
proof -
  from assms(2) have "binade x = \<lfloor>log 2 \<bar>x\<bar>\<rfloor>" by (simp add: binade_def max_def split: if_splits)
  then have "of_int (binade x) \<le> log 2 \<bar>x\<bar>" by simp
  with assms(1) show ?thesis by (simp add: le_log_iff)
qed

lemma binade_mono:
  assumes "0 < x" and "x \<le> y"
  shows "binade x \<le> binade y"
proof -
  from assms have "log 2 \<bar>x\<bar> \<le> log 2 \<bar>y\<bar>" by simp
  then have "\<lfloor>log 2 \<bar>x\<bar>\<rfloor> \<le> \<lfloor>log 2 \<bar>y\<bar>\<rfloor>" by (rule floor_mono)
  then show ?thesis by (simp add: binade_def)
qed

lemma binade_normal:
  assumes "2 powr of_int e \<le> \<bar>x\<bar>" and "\<bar>x\<bar> < 2 powr of_int (e + 1)" and "- 1022 \<le> e"
  shows "binade x = e"
proof -
  have pos: "0 < \<bar>x\<bar>" using assms(1) by (smt (verit) powr_gt_zero)
  then have "\<lfloor>log 2 \<bar>x\<bar>\<rfloor> = e"
    using assms(1,2) by (simp add: floor_eq_iff le_log_iff log_less_iff)
  with assms(3) show ?thesis by (simp add: binade_def)
qed

lemma binade_subnormal:
  assumes "x \<noteq> 0" and "\<bar>x\<bar> < 2 powr (- 1022)"
  shows "binade x = - 1022"
proof -
  from assms have "log 2 \<bar>x\<bar> < - 1022" by (simp add: log_less_iff)
  then have "\<lfloor>log 2 \<bar>x\<bar>\<rfloor> < - 1022" by linarith
  then show ?thesis by (simp add: binade_def)
qed

lemma ulp_pos: "0 < (2::real) powr of_int (e - 52)"
  by simp

lemma ulp_times:
  "of_int (2 ^ 53) * (2::real) powr of_int (e - 52) = 2 powr of_int (e + 1)"
  "of_int (2 ^ 52) * (2::real) powr of_int (e - 52) = 2 powr of_int e"
proof -
  have a: "real_of_int (e + 1) = 53 + real_of_int (e - 52)" by simp
  have "(2::real) powr of_int (e + 1) = 2 powr 53 * 2 powr of_int (e - 52)"
    unfolding a by (rule powr_add)
  then show "of_int (2 ^ 53) * (2::real) powr of_int (e - 52) = 2 powr of_int (e + 1)" by simp
  have b: "real_of_int e = 52 + real_of_int (e - 52)" by simp
  have "(2::real) powr of_int e = 2 powr 52 * 2 powr of_int (e - 52)"
    by (subst b) (rule powr_add)
  then show "of_int (2 ^ 52) * (2::real) powr of_int (e - 52) = 2 powr of_int e" by simp
qed

lemma roundToDouble_nonneg:
  assumes "0 \<le> x"
  shows "0 \<le> roundToDouble x"
proof (cases "x = 0")
  case True
  then show ?thesis by (simp add: roundToDouble_def)
next
  case False
  let ?u = "(2::real) powr of_int (binade x - 52)"
  from assms have "0 \<le> x / ?u" by simp
  then have "roundHalfEven (of_int 0) \<le> roundHalfEven (x / ?u)"
    by (intro roundHalfEven_mono) simp
  then have "0 \<le> roundHalfEven (x / ?u)" by (simp only: roundHalfEven_of_int)
  with False show ?thesis by (simp add: roundToDouble_def Let_def)
qed

lemma roundToDouble_upper:
  assumes "0 < x"
  shows "roundToDouble x \<le> 2 powr of_int (binade x + 1)"
proof -
  let ?u = "(2::real) powr of_int (binade x - 52)"
  from assms binade_upper [of x] have "x < 2 powr of_int (binade x + 1)" by simp
  then have "x < of_int (2 ^ 53) * ?u" by (simp only: ulp_times)
  then have "x / ?u \<le> of_int (2 ^ 53)" by (simp add: pos_divide_le_eq)
  then have "roundHalfEven (x / ?u) \<le> roundHalfEven (of_int (2 ^ 53))"
    by (rule roundHalfEven_mono)
  then have "roundHalfEven (x / ?u) \<le> 2 ^ 53" by (simp only: roundHalfEven_of_int)
  then have le: "of_int (roundHalfEven (x / ?u)) * ?u \<le> of_int (2 ^ 53) * ?u"
    by (intro mult_right_mono) (simp_all only: of_int_le_iff, simp)
  have "roundToDouble x = of_int (roundHalfEven (x / ?u)) * ?u"
    using assms by (simp add: roundToDouble_def Let_def)
  also note le
  also have "of_int (2 ^ 53) * ?u = 2 powr of_int (binade x + 1)" by (rule ulp_times(1))
  finally show ?thesis .
qed

lemma roundToDouble_lower:
  assumes "0 < x" and "- 1022 < binade x"
  shows "2 powr of_int (binade x) \<le> roundToDouble x"
proof -
  let ?u = "(2::real) powr of_int (binade x - 52)"
  from assms binade_lower [of x] have "2 powr of_int (binade x) \<le> x" by simp
  then have "of_int (2 ^ 52) * ?u \<le> x" by (simp only: ulp_times)
  then have "of_int (2 ^ 52) \<le> x / ?u" by (simp add: pos_le_divide_eq)
  then have "roundHalfEven (of_int (2 ^ 52)) \<le> roundHalfEven (x / ?u)"
    by (rule roundHalfEven_mono)
  then have "2 ^ 52 \<le> roundHalfEven (x / ?u)" by (simp only: roundHalfEven_of_int)
  then have le: "of_int (2 ^ 52) * ?u \<le> of_int (roundHalfEven (x / ?u)) * ?u"
    by (intro mult_right_mono) (simp_all only: of_int_le_iff, simp)
  have "2 powr of_int (binade x) = of_int (2 ^ 52) * ?u" by (rule ulp_times(2) [symmetric])
  also note le
  also have "of_int (roundHalfEven (x / ?u)) * ?u = roundToDouble x"
    using assms by (simp add: roundToDouble_def Let_def)
  finally show ?thesis .
qed

lemma roundToDouble_mono:
  assumes "0 \<le> x" and "x \<le> y"
  shows "roundToDouble x \<le> roundToDouble y"
proof (cases "x = 0")
  case True
  with assms roundToDouble_nonneg [of y] show ?thesis by (simp add: roundToDouble_def)
next
  case False
  with assms have x: "0 < x" and y: "0 < y" by simp_all
  show ?thesis
  proof (cases "binade x = binade y")
    case True
    let ?u = "(2::real) powr of_int (binade y - 52)"
    from assms(2) have "x / ?u \<le> y / ?u" by (simp add: divide_right_mono)
    then have "roundHalfEven (x / ?u) \<le> roundHalfEven (y / ?u)" by (rule roundHalfEven_mono)
    then have "of_int (roundHalfEven (x / ?u)) * ?u \<le> of_int (roundHalfEven (y / ?u)) * ?u"
      by (intro mult_right_mono) simp_all
    with x y True show ?thesis by (simp add: roundToDouble_def Let_def)
  next
    case False
    with binade_mono [OF x assms(2)] have less: "binade x + 1 \<le> binade y" by simp
    with binade_ge [of x] have "- 1022 < binade y" by linarith
    from roundToDouble_lower [OF y this] have "2 powr of_int (binade y) \<le> roundToDouble y" .
    moreover from less have "(2::real) powr of_int (binade x + 1) \<le> 2 powr of_int (binade y)"
      by (intro powr_mono) simp_all
    moreover note roundToDouble_upper [OF x]
    ultimately show ?thesis by linarith
  qed
qed

lemma roundToDouble_eq:
  assumes "binade x = e" and "\<bar>x / 2 powr of_int (e - 52) - of_int m\<bar> < 1 / 2" and "x \<noteq> 0"
  shows "roundToDouble x = of_int m * 2 powr of_int (e - 52)"
  using assms by (simp add: roundToDouble_def Let_def roundHalfEven_near)

lemma overflowThreshold_ge: "2 powr 1023 < overflowThreshold"
  by (simp add: overflowThreshold_def)

lemma toDouble_eq:
  assumes "0 < x"
    and "2 powr of_int e \<le> x" and "x < 2 powr of_int (e + 1)"
    and "- 1022 \<le> e" and "e \<le> 1022"
    and "\<bar>x / 2 powr of_int (e - 52) - of_int m\<bar> < 1 / 2"
  shows "toDouble x = Finite (of_int m * 2 powr of_int (e - 52))"
proof -
  from assms have b: "binade x = e" by (intro binade_normal) simp_all
  from assms(1) have "x \<noteq> 0" by simp
  from roundToDouble_eq [OF b assms(6) this]
  have r: "roundToDouble x = of_int m * 2 powr of_int (e - 52)" .
  have "roundToDouble x \<le> 2 powr of_int (e + 1)"
    using roundToDouble_upper [OF assms(1)] b by simp
  also have "\<dots> \<le> 2 powr 1023" using assms(5) by (intro powr_mono) simp_all
  finally have "roundToDouble x < overflowThreshold" using overflowThreshold_ge by simp
  moreover have "0 \<le> roundToDouble x" using assms(1) by (intro roundToDouble_nonneg) simp
  moreover have "0 < overflowThreshold" by (simp add: overflowThreshold_def)
  ultimately show ?thesis by (simp add: toDouble_def Let_def r not_le)
qed

lemma toDouble_zero: "toDouble 0 = Finite 0"
  by (simp add: toDouble_def roundToDouble_def overflowThreshold_def)

lemma double_08: "toDouble (8 / 10) = Finite (3602879701896397 / 4503599627370496)"
  using toDouble_eq [of "8 / 10" "- 1" 7205759403792794] by (simp add: powr_neg_numeral)

lemma double_064: "toDouble (64 / 100) = Finite (5764607523034235 / 9007199254740992)"
  using toDouble_eq [of "64 / 100" "- 1" 5764607523034235] by (simp add: powr_neg_numeral)

lemma double_100: "toDouble 100 = Finite 100"
  using toDouble_eq [of 100 6 "100 * 2 ^ 46"] by (simp add: powr_neg_numeral)

lemma double_prod:
  "toDouble (3602879701896397 / 4503599627370496 * (3602879701896397 / 4503599627370496))
   = Finite (5764607523034236 / 9007199254740992)"
  using toDouble_eq [of "3602879701896397 / 4503599627370496 * (3602879701896397 / 4503599627370496)"
      "- 1" 5764607523034236] by (simp add: powr_neg_numeral)

subsection \<open>The effect of each check\<close>

lemma typeCount_eq:
  "length (filter (\<lambda>t. t = ty) (map sensor_type sensors)) = typeCount sensors ty"
  by (simp add: typeCount_def filter_map comp_def)

lemma requiredCallback_snd:
  "snd (requiredCallback (map sensor_type sensors) ty st)
   = (snd st)\<lparr>errors := errors (snd st) @ requiredErrors [ty] sensors,
       warnings := warnings (snd st) @ requiredWarning sensors ty\<rparr>"
  unfolding requiredCallback_def Let_def typeCount_eq
  by (simp add: requiredErrors_def requiredWarning_def split: option.splits)

lemma required_fold:
  "snd (fold (requiredCallback (map sensor_type sensors)) tys st)
   = (snd st)\<lparr>errors := errors (snd st) @ requiredErrors tys sensors,
       warnings := warnings (snd st) @ requiredWarnings tys sensors\<rparr>"
proof (induction tys arbitrary: st)
  case Nil
  show ?case by (simp add: requiredErrors_def requiredWarnings_def)
next
  case (Cons ty tys)
  show ?case
    by (simp add: Cons.IH requiredCallback_snd requiredErrors_def requiredWarnings_def)
qed

lemma checkRequiredSensors_snd:
  "snd (checkRequiredSensors tys sensors r)
   = r\<lparr>errors := errors r @ requiredErrors tys sensors,
       warnings := warnings r @ requiredWarnings tys sensors\<rparr>"
  by (simp add: checkRequiredSensors_def required_fold)

lemma recommendedCallback_snd:
  "snd (recommendedCallback (map sensor_type sensors) ty st)
   = (snd st)\<lparr>suggestions := suggestions (snd st) @ recommendedSuggestions [ty] sensors\<rparr>"
  unfolding recommendedCallback_def Let_def typeCount_eq
  by (simp add: recommendedSuggestions_def)

lemma recommended_fold:
  "snd (fold (recommendedCallback (map sensor_type sensors)) tys st)
   = (snd st)\<lparr>suggestions := suggestions (snd st) @ recommendedSuggestions tys sensors\<rparr>"
proof (induction tys arbitrary: st)
  case Nil
  show ?case by (simp add: recommendedSuggestions_def)
next
  case (Cons ty tys)
  show ?case
    by (simp add: Cons.IH recommendedCallback_snd recommendedSuggestions_def)
qed

lemma checkRecommendedSensors_snd:
  "snd (checkRecommendedSensors tys sensors r)
   = r\<lparr>suggestions := suggestions r @ recommendedSuggestions tys sensors\<rparr>"
  by (simp add: checkRecommendedSensors_def recommended_fold)

lemma checkWallDisplacementLayout_fst:
  "fst (checkWallDisplacementLayout sensors len width r l)
   = r\<lparr>warnings := warnings r @ wallWarnings sensors len width\<rparr>"
  by (simp add: checkWallDisplacementLayout_def wallWarnings_def wallSensors_def Let_def)

lemma checkDeepHorizontalLayout_fst:
  "fst (checkDeepHorizontalLayout sensors len width r l)
   = r\<lparr>warnings := warnings r @ deepWarnings sensors len width\<rparr>"
  by (simp add: checkDeepHorizontalLayout_def deepWarnings_def Let_def)

lemma checkGroundSettlementLayout_fst:
  "fst (checkGroundSettlementLayout sensors len width depth r l)
   = r\<lparr>warnings := warnings r @ settlementWarnings sensors len width depth\<rparr>"
  by (simp add: checkGroundSettlementLayout_def settlementWarnings_def Let_def)

lemma checkSensorLayout_snd:
  "snd (checkSensorLayout config sensors r)
   = r\<lparr>warnings := warnings r
        @ wallWarnings sensors (dim_length (dimensions config)) (dim_width (dimensions config))
        @ deepWarnings sensors (dim_length (dimensions config)) (dim_width (dimensions config))
        @ settlementWarnings sensors (dim_length (dimensions config))
            (dim_width (dimensions config)) (dim_depth (dimensions config))\<rparr>"
  by (simp add: checkSensorLayout_def Let_def split_def checkWallDisplacementLayout_fst
      checkDeepHorizontalLayout_fst checkGroundSettlementLayout_fst)

lemma checkSensorQuantity_snd: "snd (checkSensorQuantity config sensors r) = r"
  by (simp add: checkSensorQuantity_def Let_def)

lemma checkSensorQuantity_fst:
  "fst (checkSensorQuantity config sensors r) = quantityDetail config sensors"
  by (simp add: quantityDetail_def checkSensorQuantity_def Let_def)

lemma checkMonitoringRange_snd:
  "snd (checkMonitoringRange config sensors r)
   = r\<lparr>warnings := warnings r @ rangeWarnings config sensors\<rparr>"
  by (simp add: checkMonitoringRange_def rangeWarnings_def outsideCount_def radialDistance_def
      Let_def)

lemma checkMonitoringRange_fst:
  "fst (checkMonitoringRange config sensors r) = rangeDetail config sensors"
  by (simp add: rangeDetail_def checkMonitoringRange_def Let_def)

lemma checkMonitoringNecessity_eq:
  "checkMonitoringNecessity config r
   = r\<lparr>suggestions := suggestions r @ [necessitySuggestion config]\<rparr>"
  by (simp add: checkMonitoringNecessity_def necessitySuggestion_def Let_def)

lemma validateLayout_valid:
  assumes "lookupRequirements config = Inr (Some req)"
  shows "\<exists>r. validateLayout config sensors = Inr r
     \<and> errors r = requiredErrors (required req) sensors
     \<and> warnings r =
         requiredWarnings (required req) sensors
         @ wallWarnings sensors (dim_length (dimensions config)) (dim_width (dimensions config))
         @ deepWarnings sensors (dim_length (dimensions config)) (dim_width (dimensions config))
         @ settlementWarnings sensors (dim_length (dimensions config))
             (dim_width (dimensions config)) (dim_depth (dimensions config))
         @ rangeWarnings config sensors
     \<and> suggestions r =
         recommendedSuggestions (recommended req) sensors @ [necessitySuggestion config]
     \<and> isValid r = (errors r = [])
     \<and> compliance_quantity (compliance r) = Some (quantityDetail config sensors)
     \<and> compliance_range (compliance r) = Some (rangeDetail config sensors)"
  using assms
  by (simp add: validateLayout_def Let_def split_def checkRequiredSensors_snd
      checkRecommendedSensors_snd checkSensorLayout_snd checkSensorQuantity_snd
      checkMonitoringRange_snd checkMonitoringNecessity_eq
      checkSensorQuantity_fst checkMonitoringRange_fst)

lemma validateLayout_notFound:
  assumes "lookupRequirements config = Inr None"
  shows "validateLayout config sensors =
     Inr \<lparr>isValid = False,
          errors = [RequirementsNotFound (cfg_type config) (safetyLevel config)],
          warnings = [], suggestions = [], compliance = emptyCompliance\<rparr>"
  using assms by (simp add: validateLayout_def Let_def)

lemma validateLayout_throws:
  assumes "lookupRequirements config = Inl e"
  shows "validateLayout config sensors = Inl e"
  using assms by (simp add: validateLayout_def Let_def)

subsection \<open>Assignment of sensors to sides\<close>











subsection \<open>The requirement table\<close>

lemma lookup_Some_in_table:
  assumes "lookupRequirements config = Inr (Some req)"
  shows "\<exists>levels. (cfg_type config, levels) \<in> set monitoringRequirements
           \<and> (safetyLevel config, req) \<in> set levels"
  using assms
  by (auto simp: lookupRequirements_def getProperty_def
      split: option.splits if_splits dest!: map_of_SomeD)

lemma table_entries:
  assumes "(t, levels) \<in> set monitoringRequirements" and "(l, req) \<in> set levels"
  shows "set (required req) \<subseteq> set (map fst minimums)"
    and "set (recommended req) \<subseteq> set (map fst minimums)"
    and "distinct (required req)" and "distinct (recommended req)"
    and "required req \<noteq> []"
  using assms by (auto simp: monitoringRequirements_def minimums_def)

lemma getMinimumSensorCount_static:
  "ty \<notin> set object_prototype_keys \<Longrightarrow> getMinimumSensorCount ty = Some (staticMinimum ty)"
  by (simp add: getMinimumSensorCount_def getProperty_def minimums_def staticMinimum_def)

lemma minimums_not_inherited:
  "ty \<in> set (map fst minimums) \<Longrightarrow> ty \<notin> set object_prototype_keys"
  by (auto simp: minimums_def object_prototype_keys_def)

lemma lookup_valid_iff:
  "(\<exists>req. lookupRequirements config = Inr (Some req))
   \<longleftrightarrow> cfg_type config \<in> {''soil'', ''rock'', ''soil-rock''} \<and> safetyLevel config \<in> {1, 2, 3}"
  by (auto simp: lookupRequirements_def getProperty_def monitoringRequirements_def
      object_prototype_keys_def split: option.splits if_splits)

subsection \<open>Requirement lookup and validity\<close>

lemma known_type_unknown_level:
  assumes "cfg_type config \<in> {''soil'', ''rock'', ''soil-rock''}"
    and "safetyLevel config \<notin> {1, 2, 3}"
  shows "validateLayout config sensors =
     Inr \<lparr>isValid = False,
          errors = [RequirementsNotFound (cfg_type config) (safetyLevel config)],
          warnings = [], suggestions = [], compliance = emptyCompliance\<rparr>"
proof -
  have "lookupRequirements config = Inr None"
    using assms
    by (auto simp: lookupRequirements_def getProperty_def monitoringRequirements_def)
  then show ?thesis by (rule validateLayout_notFound)
qed

text \<open>
  Claim C1. A configuration whose composition and safety level are not one of the nine
  defined combinations should give a report with one error, \<open>isValid = false\<close> and an
  empty compliance record. For the composition \<open>unknown\<close> at safety level 1 the validator
  does not return a report: the first index gives \<open>undefined\<close>, and the second index on it
  throws a \<open>TypeError\<close> before the guard is reached. (For a known composition with a
  level other than 1, 2 and 3 the report is the one described, see
  \<open>known_type_unknown_level\<close>.)
\<close>

theorem unknown_type_throws:
  "validateLayout
     \<lparr>cfg_type = ''unknown'', safetyLevel = 1,
      dimensions = \<lparr>dim_length = 30, dim_width = 20, dim_depth = 10\<rparr>\<rparr> []
   = Inl TypeError"
  by (simp add: validateLayout_def lookupRequirements_def getProperty_def
      monitoringRequirements_def object_prototype_keys_def)

text \<open>
  Claim C2. In every report that \<open>validateLayout\<close> returns, \<open>isValid\<close> is true exactly
  when the error list is empty, on the early return as well; and for each of the three
  known compositions a report is returned, whatever the level and the sensors.
\<close>

theorem isValid_iff_no_errors:
  "(validateLayout config sensors = Inr r \<longrightarrow> isValid r = (errors r = []))
   \<and> (cfg_type config \<in> {''soil'', ''rock'', ''soil-rock''}
        \<longrightarrow> (\<exists>r'. validateLayout config sensors = Inr r'))"
proof (intro conjI impI)
  assume run: "validateLayout config sensors = Inr r"
  show "isValid r = (errors r = [])"
  proof (cases "lookupRequirements config")
    case (Inl e)
    with run show ?thesis by (simp add: validateLayout_throws)
  next
    case (Inr found)
    show ?thesis
    proof (cases found)
      case None
      with Inr run show ?thesis by (auto simp: validateLayout_notFound)
    next
      case (Some req)
      with Inr validateLayout_valid [of config req sensors] run show ?thesis by auto
    qed
  qed
next
  assume known: "cfg_type config \<in> {''soil'', ''rock'', ''soil-rock''}"
  show "\<exists>r'. validateLayout config sensors = Inr r'"
  proof (cases "safetyLevel config \<in> {1, 2, 3}")
    case True
    with known obtain req where "lookupRequirements config = Inr (Some req)"
      using lookup_valid_iff [of config] by blast
    then show ?thesis using validateLayout_valid [of config req sensors] by blast
  next
    case False
    with known show ?thesis by (simp add: known_type_unknown_level)
  qed
qed

text \<open>
  The property at a run that passes all checks of presence: rock, level 3, one horizontal
  displacement point.
\<close>

theorem isValid_iff_no_errors_witness:
  "\<exists>r. validateLayout
          \<lparr>cfg_type = ''rock'', safetyLevel = 3,
           dimensions = \<lparr>dim_length = 30, dim_width = 20, dim_depth = 10\<rparr>\<rparr>
          [\<lparr>sensor_type = ''horizontal-displacement'',
            sensor_position = \<lparr>pos_x = 15, pos_y = 0, pos_z = 0\<rparr>, sensor_id = 0\<rparr>] = Inr r
       \<and> isValid r = (errors r = [])"
proof -
  let ?c = "\<lparr>cfg_type = ''rock'', safetyLevel = 3,
            dimensions = \<lparr>dim_length = 30, dim_width = 20, dim_depth = 10\<rparr>\<rparr>"
  let ?s = "[\<lparr>sensor_type = ''horizontal-displacement'',
            sensor_position = \<lparr>pos_x = 15, pos_y = 0, pos_z = 0\<rparr>, sensor_id = 0\<rparr>]"
  have known: "cfg_type ?c \<in> {''soil'', ''rock'', ''soil-rock''}" by simp
  from isValid_iff_no_errors [of ?c ?s] known
  obtain r where run: "validateLayout ?c ?s = Inr r" by blast
  from isValid_iff_no_errors [of ?c ?s r] run
  have "isValid r = (errors r = [])" by blast
  with run show ?thesis by blast
qed

text \<open>
  Claim C3. For soil at level 1 with dimensions 30, 20, 10 and no sensor, the report has the
  six errors of the six required categories, in the order of the table, and is not valid.
  For every defined combination and every sensor list with no sensor of a required
  category, the number of errors is the number of required categories.
\<close>

theorem required_categories_missing:
  "(\<exists>r. validateLayout
           \<lparr>cfg_type = ''soil'', safetyLevel = 1,
            dimensions = \<lparr>dim_length = 30, dim_width = 20, dim_depth = 10\<rparr>\<rparr> [] = Inr r
        \<and> errors r =
            [MissingRequired WallTopHorizontalDisplacement,
             MissingRequired WallTopVerticalDisplacement,
             MissingRequired DeepHorizontalDisplacement,
             MissingRequired SupportAxialForce,
             MissingRequired GroundwaterLevel,
             MissingRequired SurroundingSurfaceVerticalDisplacement]
        \<and> isValid r = False)
   \<and> (lookupRequirements config = Inr (Some req)
        \<longrightarrow> set (required req) \<inter> sensor_type ` set sensors = {}
        \<longrightarrow> (\<exists>r. validateLayout config sensors = Inr r
               \<and> length (errors r) = length (required req)
               \<and> isValid r = False))"
proof (intro conjI impI)
  let ?c = "\<lparr>cfg_type = ''soil'', safetyLevel = 1,
            dimensions = \<lparr>dim_length = 30, dim_width = 20, dim_depth = 10\<rparr>\<rparr>"
  have lookup: "lookupRequirements ?c = Inr (Some
     \<lparr>required = [''horizontal-displacement'', ''vertical-displacement'',
                  ''deep-horizontal'', ''support-force'', ''water-level'',
                  ''ground-settlement''],
      recommended = [''anchor-force''],
      optional = [''wall-internal-force'', ''pore-pressure'', ''soil-pressure'']\<rparr>)"
    by (simp add: lookupRequirements_def getProperty_def monitoringRequirements_def)
  have names: "getSensorTypeName ''horizontal-displacement'' = WallTopHorizontalDisplacement"
    "getSensorTypeName ''vertical-displacement'' = WallTopVerticalDisplacement"
    "getSensorTypeName ''deep-horizontal'' = DeepHorizontalDisplacement"
    "getSensorTypeName ''support-force'' = SupportAxialForce"
    "getSensorTypeName ''water-level'' = GroundwaterLevel"
    "getSensorTypeName ''ground-settlement'' = SurroundingSurfaceVerticalDisplacement"
    by (simp_all add: getSensorTypeName_def getProperty_def names_def)
  from validateLayout_valid [OF lookup, of "[]"]
  show "\<exists>r. validateLayout ?c [] = Inr r
        \<and> errors r =
            [MissingRequired WallTopHorizontalDisplacement,
             MissingRequired WallTopVerticalDisplacement,
             MissingRequired DeepHorizontalDisplacement,
             MissingRequired SupportAxialForce,
             MissingRequired GroundwaterLevel,
             MissingRequired SurroundingSurfaceVerticalDisplacement]
        \<and> isValid r = False"
    by (auto simp: requiredErrors_def typeCount_def names)
next
  assume lookup: "lookupRequirements config = Inr (Some req)"
    and none: "set (required req) \<inter> sensor_type ` set sensors = {}"
  have zero: "typeCount sensors ty = 0" if "ty \<in> set (required req)" for ty
    using that none by (auto simp: typeCount_def filter_empty_conv)
  then have "filter (\<lambda>ty. typeCount sensors ty = 0) (required req) = required req"
    by (simp add: filter_id_conv)
  then have count: "length (requiredErrors (required req) sensors) = length (required req)"
    by (simp add: requiredErrors_def)
  from lookup_Some_in_table [OF lookup] have "required req \<noteq> []"
    using table_entries(5) by blast
  with count have "requiredErrors (required req) sensors \<noteq> []" by auto
  with count validateLayout_valid [OF lookup, of sensors]
  show "\<exists>r. validateLayout config sensors = Inr r
          \<and> length (errors r) = length (required req) \<and> isValid r = False"
    by auto
qed

text \<open>
  The general part at rock, level 2, with one water level point: two required categories,
  two errors.
\<close>

theorem required_categories_missing_witness:
  "\<exists>r. validateLayout
          \<lparr>cfg_type = ''rock'', safetyLevel = 2,
           dimensions = \<lparr>dim_length = 40, dim_width = 20, dim_depth = 6\<rparr>\<rparr>
          [\<lparr>sensor_type = ''water-level'',
            sensor_position = \<lparr>pos_x = 1, pos_y = 0, pos_z = 2\<rparr>, sensor_id = 0\<rparr>] = Inr r
       \<and> length (errors r) = 2 \<and> isValid r = False"
proof -
  let ?c = "\<lparr>cfg_type = ''rock'', safetyLevel = 2,
            dimensions = \<lparr>dim_length = 40, dim_width = 20, dim_depth = 6\<rparr>\<rparr>"
  let ?req = "\<lparr>required = [''horizontal-displacement'', ''ground-settlement''],
               recommended = [''vertical-displacement'', ''anchor-force'', ''water-level''],
               optional = []\<rparr>"
  let ?s = "[\<lparr>sensor_type = ''water-level'',
            sensor_position = \<lparr>pos_x = 1, pos_y = 0, pos_z = 2\<rparr>, sensor_id = 0\<rparr>]"
  have lookup: "lookupRequirements ?c = Inr (Some ?req)"
    by (simp add: lookupRequirements_def getProperty_def monitoringRequirements_def)
  have none: "set (required ?req) \<inter> sensor_type ` set ?s = {}" by simp
  from required_categories_missing [of ?c ?req ?s] lookup none
  show ?thesis by (simp add: numeral_2_eq_2)
qed

lemma definedCombination_iff:
  "definedCombination config \<longleftrightarrow> (\<exists>req. lookupRequirements config = Inr (Some req))"
  by (simp add: definedCombination_def lookup_valid_iff)

subsection \<open>Presence, count and necessity\<close>

lemma requiredWarnings_static:
  assumes "set tys \<inter> set object_prototype_keys = {}"
  shows "requiredWarnings tys sensors
         = map (\<lambda>ty. InsufficientCount (getSensorTypeName ty) (staticMinimum ty))
               (filter (\<lambda>ty. 0 < typeCount sensors ty \<and> typeCount sensors ty < staticMinimum ty)
                       tys)"
  using assms
  by (induction tys)
     (auto simp: requiredWarnings_def requiredWarning_def getMinimumSensorCount_static)

text \<open>
  Claim C4. For a defined combination, the check of the required categories appends one
  error for each required category with no sensor, one warning (and no error) for each
  required category with at least one sensor but fewer than its static minimum, and the
  check of the recommended categories appends one suggestion for each recommended category
  with no sensor; all in the order of the requirement lists, which have no repetition. The
  minimum of a category is 8, 8, 4, 4, 2, 2, 6 for the seven listed ones and 1 for any other.
\<close>

theorem presence_and_count_messages:
  assumes "lookupRequirements config = Inr (Some req)"
  shows "snd (checkRequiredSensors (required req) sensors r)
         = r\<lparr>errors := errors r
                 @ map (\<lambda>ty. MissingRequired (getSensorTypeName ty))
                       (filter (\<lambda>ty. typeCount sensors ty = 0) (required req)),
              warnings := warnings r
                 @ map (\<lambda>ty. InsufficientCount (getSensorTypeName ty) (staticMinimum ty))
                       (filter (\<lambda>ty. 0 < typeCount sensors ty
                                     \<and> typeCount sensors ty < staticMinimum ty)
                               (required req))\<rparr>
       \<and> snd (checkRecommendedSensors (recommended req) sensors r)
         = r\<lparr>suggestions := suggestions r
                 @ map (\<lambda>ty. SuggestAdd (getSensorTypeName ty))
                       (filter (\<lambda>ty. typeCount sensors ty = 0) (recommended req))\<rparr>
       \<and> distinct (required req) \<and> distinct (recommended req)
       \<and> (ty \<notin> set object_prototype_keys
            \<longrightarrow> getMinimumSensorCount ty = Some (staticMinimum ty))"
proof -
  from lookup_Some_in_table [OF assms] obtain levels
    where entry: "(cfg_type config, levels) \<in> set monitoringRequirements"
      "(safetyLevel config, req) \<in> set levels"
    by blast
  have "set (required req) \<subseteq> set (map fst minimums)"
    by (rule table_entries(1) [OF entry])
  then have "set (required req) \<inter> set object_prototype_keys = {}"
    using minimums_not_inherited by blast
  then have "requiredWarnings (required req) sensors
         = map (\<lambda>ty. InsufficientCount (getSensorTypeName ty) (staticMinimum ty))
               (filter (\<lambda>ty. 0 < typeCount sensors ty \<and> typeCount sensors ty < staticMinimum ty)
                       (required req))"
    by (rule requiredWarnings_static)
  then have "snd (checkRequiredSensors (required req) sensors r)
         = r\<lparr>errors := errors r
                 @ map (\<lambda>ty. MissingRequired (getSensorTypeName ty))
                       (filter (\<lambda>ty. typeCount sensors ty = 0) (required req)),
              warnings := warnings r
                 @ map (\<lambda>ty. InsufficientCount (getSensorTypeName ty) (staticMinimum ty))
                       (filter (\<lambda>ty. 0 < typeCount sensors ty
                                     \<and> typeCount sensors ty < staticMinimum ty)
                               (required req))\<rparr>"
    by (simp add: checkRequiredSensors_snd requiredErrors_def)
  moreover have "snd (checkRecommendedSensors (recommended req) sensors r)
         = r\<lparr>suggestions := suggestions r
                 @ map (\<lambda>ty. SuggestAdd (getSensorTypeName ty))
                       (filter (\<lambda>ty. typeCount sensors ty = 0) (recommended req))\<rparr>"
    by (simp add: checkRecommendedSensors_snd recommendedSuggestions_def)
  moreover have "distinct (required req)" "distinct (recommended req)"
    by (rule table_entries(3) [OF entry], rule table_entries(4) [OF entry])
  ultimately show ?thesis
    by (simp add: getMinimumSensorCount_static)
qed

text \<open>
  The property at rock, level 2, with one horizontal displacement point.
\<close>

theorem presence_and_count_messages_witness:
  "snd (checkRequiredSensors [''horizontal-displacement'', ''ground-settlement'']
          [\<lparr>sensor_type = ''horizontal-displacement'',
            sensor_position = \<lparr>pos_x = 20, pos_y = 0, pos_z = 0\<rparr>, sensor_id = 0\<rparr>]
          initialResults)
   = initialResults
       \<lparr>errors := [MissingRequired SurroundingSurfaceVerticalDisplacement],
        warnings := [InsufficientCount WallTopHorizontalDisplacement 8]\<rparr>
   \<and> snd (checkRecommendedSensors [''vertical-displacement'', ''anchor-force'', ''water-level'']
          [\<lparr>sensor_type = ''horizontal-displacement'',
            sensor_position = \<lparr>pos_x = 20, pos_y = 0, pos_z = 0\<rparr>, sensor_id = 0\<rparr>]
          initialResults)
   = initialResults
       \<lparr>suggestions := [SuggestAdd WallTopVerticalDisplacement, SuggestAdd AnchorAxialForce,
                        SuggestAdd GroundwaterLevel]\<rparr>
   \<and> getMinimumSensorCount ''pore-pressure'' = Some 1"
proof -
  let ?c = "\<lparr>cfg_type = ''rock'', safetyLevel = 2,
            dimensions = \<lparr>dim_length = 40, dim_width = 20, dim_depth = 6\<rparr>\<rparr>"
  let ?req = "\<lparr>required = [''horizontal-displacement'', ''ground-settlement''],
               recommended = [''vertical-displacement'', ''anchor-force'', ''water-level''],
               optional = []\<rparr>"
  let ?s = "[\<lparr>sensor_type = ''horizontal-displacement'',
            sensor_position = \<lparr>pos_x = 20, pos_y = 0, pos_z = 0\<rparr>, sensor_id = 0\<rparr>]"
  have lookup: "lookupRequirements ?c = Inr (Some ?req)"
    by (simp add: lookupRequirements_def getProperty_def monitoringRequirements_def)
  have names: "getSensorTypeName ''horizontal-displacement'' = WallTopHorizontalDisplacement"
    "getSensorTypeName ''vertical-displacement'' = WallTopVerticalDisplacement"
    "getSensorTypeName ''anchor-force'' = AnchorAxialForce"
    "getSensorTypeName ''water-level'' = GroundwaterLevel"
    "getSensorTypeName ''ground-settlement'' = SurroundingSurfaceVerticalDisplacement"
    by (simp_all add: getSensorTypeName_def getProperty_def names_def)
  have other: "''pore-pressure'' \<notin> set object_prototype_keys"
    by (simp add: object_prototype_keys_def)
  from presence_and_count_messages [OF lookup, of ?s initialResults "''pore-pressure''"] other
  show ?thesis
    by (simp add: typeCount_def staticMinimum_def names initialResults_def)
qed

text \<open>
  Claim C5 says that every run emits exactly one of the three necessity suggestions. A run
  that returns early does not reach the advisor: for soil at level 4 the report has no
  suggestion at all.
\<close>

theorem necessity_absent_on_early_return:
  "validateLayout
     \<lparr>cfg_type = ''soil'', safetyLevel = 4,
      dimensions = \<lparr>dim_length = 30, dim_width = 20, dim_depth = 10\<rparr>\<rparr> []
   = Inr \<lparr>isValid = False, errors = [RequirementsNotFound ''soil'' 4],
          warnings = [], suggestions = [], compliance = emptyCompliance\<rparr>"
  by (simp add: validateLayout_def lookupRequirements_def getProperty_def
      monitoringRequirements_def)

text \<open>
  Claim C5, amended. For every defined combination the report has exactly one necessity
  suggestion among its suggestions: the mandatory one at a level of at most 2, otherwise the
  one that monitoring should be done at a depth of at least 5, otherwise the discretionary one.
  A run that finds no requirement set returns a report without suggestions.
\<close>

theorem necessity_suggestion:
  "(definedCombination config
      \<longrightarrow> (\<exists>r. validateLayout config sensors = Inr r
             \<and> filter (\<lambda>m. m \<in> set necessityMessages) (suggestions r)
               = [if safetyLevel config \<le> 2 then MonitoringMandatory
                  else if dim_depth (dimensions config) \<ge> 5 then MonitoringShould
                  else MonitoringDiscretionary]))
   \<and> (lookupRequirements config = Inr None
      \<longrightarrow> (\<exists>r. validateLayout config sensors = Inr r \<and> suggestions r = []))"
proof (intro conjI impI)
  assume "definedCombination config"
  then obtain req where lookup: "lookupRequirements config = Inr (Some req)"
    by (auto simp: definedCombination_iff)
  have "filter (\<lambda>m. m \<in> set necessityMessages) (recommendedSuggestions tys sensors) = []" for tys
    by (auto simp: recommendedSuggestions_def necessityMessages_def filter_empty_conv)
  moreover have "necessitySuggestion config \<in> set necessityMessages"
    by (simp add: necessitySuggestion_def necessityMessages_def)
  ultimately show "\<exists>r. validateLayout config sensors = Inr r
             \<and> filter (\<lambda>m. m \<in> set necessityMessages) (suggestions r)
               = [if safetyLevel config \<le> 2 then MonitoringMandatory
                  else if dim_depth (dimensions config) \<ge> 5 then MonitoringShould
                  else MonitoringDiscretionary]"
    using validateLayout_valid [OF lookup, of sensors]
    by (auto simp: necessitySuggestion_def)
next
  assume "lookupRequirements config = Inr None"
  then show "\<exists>r. validateLayout config sensors = Inr r \<and> suggestions r = []"
    by (simp add: validateLayout_notFound)
qed

text \<open>
  The property at soil, level 3, depth 3, and at a composition that names an inherited
  property.
\<close>

theorem necessity_suggestion_witness:
  "(\<exists>r. validateLayout
           \<lparr>cfg_type = ''soil'', safetyLevel = 3,
            dimensions = \<lparr>dim_length = 30, dim_width = 20, dim_depth = 3\<rparr>\<rparr> [] = Inr r
        \<and> filter (\<lambda>m. m \<in> set necessityMessages) (suggestions r) = [MonitoringDiscretionary])
   \<and> (\<exists>r. validateLayout
           \<lparr>cfg_type = ''toString'', safetyLevel = 1,
            dimensions = \<lparr>dim_length = 30, dim_width = 20, dim_depth = 3\<rparr>\<rparr> [] = Inr r
        \<and> suggestions r = [])"
proof -
  let ?c = "\<lparr>cfg_type = ''soil'', safetyLevel = 3,
            dimensions = \<lparr>dim_length = 30, dim_width = 20, dim_depth = 3\<rparr>\<rparr>"
  let ?d = "\<lparr>cfg_type = ''toString'', safetyLevel = 1,
            dimensions = \<lparr>dim_length = 30, dim_width = 20, dim_depth = 3\<rparr>\<rparr>"
  have defined: "definedCombination ?c"
    by (simp add: definedCombination_def)
  have notFound: "lookupRequirements ?d = Inr None"
    by (simp add: lookupRequirements_def getProperty_def monitoringRequirements_def
        object_prototype_keys_def)
  from necessity_suggestion [of ?c "[]"] defined
  have first: "\<exists>r. validateLayout ?c [] = Inr r
        \<and> filter (\<lambda>m. m \<in> set necessityMessages) (suggestions r) = [MonitoringDiscretionary]"
    by simp
  from necessity_suggestion [of ?d "[]"] notFound
  have "\<exists>r. validateLayout ?d [] = Inr r \<and> suggestions r = []"
    by blast
  with first show ?thesis by blast
qed

subsection \<open>Quantity, range and layout\<close>



lemma double_30_20:
  "toDouble 50 = Finite 50" "toDouble 100 = Finite 100"
  using toDouble_eq [of 50 5 "50 * 2 ^ 47"] toDouble_eq [of 100 6 "100 * 2 ^ 46"]
  by (simp_all add: powr_neg_numeral)

lemma double_literals:
  "toDouble (4 / 5) = Finite (3602879701896397 / 4503599627370496)"
  "toDouble (2 / 5) = Finite (3602879701896397 / 9007199254740992)"
  using toDouble_eq [of "4 / 5" "- 1" 7205759403792794]
    toDouble_eq [of "2 / 5" "- 2" 7205759403792794]
  by (simp_all add: powr_neg_numeral)


lemma double_threshold_level_3:
  "toDouble (12980742146337070512478121581609 / 40564819207303340847894502572032)
   = Finite (1441151880758559 / 4503599627370496)"
  using toDouble_eq [of "3602879701896397 / 9007199254740992
      * (3602879701896397 / 4503599627370496)" "- 2" 5764607523034236]
  by (simp add: powr_neg_numeral)




text \<open>
  The same boundary at level 3: 32 sensors on the same pit give the double nearest to 0.32,
  below the double product of 0.4 and 0.8.
\<close>

lemma quantity_boundary_level_3:
  "adequate (fst (checkSensorQuantity
      \<lparr>cfg_type = ''soil'', safetyLevel = 3,
       dimensions = \<lparr>dim_length = 30, dim_width = 20, dim_depth = 10\<rparr>\<rparr>
      (replicate 32
         \<lparr>sensor_type = ''water-level'',
          sensor_position = \<lparr>pos_x = 1, pos_y = 0, pos_z = 2\<rparr>, sensor_id = 0\<rparr>)
      initialResults)) = False"
proof -
  have "toDouble (8 / 25) = Finite (5764607523034235 / 18014398509481984)"
    using toDouble_eq [of "8 / 25" "- 2" 5764607523034235]
    by (simp add: powr_neg_numeral)
  then show ?thesis
    by (simp add: checkSensorQuantity_def Let_def calculateRecommendedDensity_def
        baseDensity_def double_30_20 double_literals double_threshold_level_3)
qed

lemma overflowThreshold_pos: "0 < overflowThreshold"
  by (simp add: overflowThreshold_def)

lemma toDouble_nonneg:
  assumes "0 \<le> x"
  shows "toDouble x = PlusInfinity
         \<or> toDouble x = Finite (roundToDouble x) \<and> 0 \<le> roundToDouble x"
  using roundToDouble_nonneg [OF assms] overflowThreshold_pos
  by (simp add: toDouble_def Let_def)

lemma toDouble_mono:
  assumes "0 \<le> x" and "x \<le> y"
  shows "dge (toDouble y) (toDouble x)"
proof -
  have le: "roundToDouble x \<le> roundToDouble y" by (rule roundToDouble_mono [OF assms])
  have x: "0 \<le> roundToDouble x" by (rule roundToDouble_nonneg [OF assms(1)])
  show ?thesis
    using le x overflowThreshold_pos by (simp add: toDouble_def Let_def)
qed

lemma roundToDouble_least: "roundToDouble (2 powr - 1074) = 2 powr - 1074"
proof -
  have "(2::real) powr - 1074 < 2 powr - 1022" by (intro powr_less_mono) simp_all
  then have "binade (2 powr - 1074) = - 1022" by (intro binade_subnormal) simp_all
  from roundToDouble_eq [OF this, of 1] show ?thesis by simp
qed

lemma roundToDouble_pos:
  assumes "2 powr - 1074 \<le> x"
  shows "2 powr - 1074 \<le> roundToDouble x"
  using roundToDouble_mono [of "2 powr - 1074" x] assms by (simp add: roundToDouble_least)

lemma isDouble_pos_ge:
  assumes "isDouble x" and "0 < x"
  shows "2 powr - 1074 \<le> x"
proof -
  let ?u = "(2::real) powr of_int (binade x - 52)"
  let ?k = "roundHalfEven (x / ?u)"
  from assms(1) overflowThreshold_pos have "roundToDouble x = x"
    by (simp add: isDouble_def toDouble_def Let_def split: if_splits)
  with assms(2) have x: "x = of_int ?k * ?u" by (simp add: roundToDouble_def Let_def)
  with assms(2) have "0 < of_int ?k * ?u" by simp
  then have "0 < ?k" by (simp add: zero_less_mult_iff)
  then have "1 \<le> real_of_int ?k" by simp
  then have "1 * ?u \<le> of_int ?k * ?u" by (intro mult_right_mono) simp_all
  with x have "?u \<le> x" by simp
  moreover have "(2::real) powr - 1074 \<le> ?u"
    using binade_ge [of x] by (intro powr_mono) simp_all
  ultimately show ?thesis by linarith
qed

lemma dge_trans: "dge a b \<Longrightarrow> dge b c \<Longrightarrow> dge a c"
  by (cases a; cases b; cases c) simp_all

lemma dge_PlusInfinity: "b \<noteq> NotANumber \<Longrightarrow> dge PlusInfinity b"
  by (cases b) simp_all

lemma perimeter_pos:
  assumes "2 powr - 1074 \<le> s"
  shows "dmul (Finite 2) (toDouble s) = PlusInfinity
         \<or> (\<exists>p. dmul (Finite 2) (toDouble s) = Finite p \<and> 0 < p)"
proof -
  have s: "0 \<le> s" using assms by (smt (verit) powr_gt_zero)
  from toDouble_nonneg [OF s] show ?thesis
  proof
    assume "toDouble s = PlusInfinity"
    then show ?thesis by simp
  next
    assume fin: "toDouble s = Finite (roundToDouble s) \<and> 0 \<le> roundToDouble s"
    have "2 powr - 1074 \<le> roundToDouble s" by (rule roundToDouble_pos [OF assms])
    then have two: "2 powr - 1074 \<le> 2 * roundToDouble s"
      by (smt (verit) powr_gt_zero)
    then have pos: "0 < roundToDouble (2 * roundToDouble s)"
      using roundToDouble_pos [OF two] by (smt (verit) powr_gt_zero)
    from two have "0 \<le> 2 * roundToDouble s" by (smt (verit) powr_gt_zero)
    from toDouble_nonneg [OF this] pos fin show ?thesis by auto
  qed
qed

lemma perimeter_mono:
  assumes "0 \<le> s1" and "s1 \<le> s2"
  shows "dge (dmul (Finite 2) (toDouble s2)) (dmul (Finite 2) (toDouble s1))"
proof -
  from assms have s2: "0 \<le> s2" by simp
  have le: "roundToDouble s1 \<le> roundToDouble s2" by (rule roundToDouble_mono [OF assms])
  have r1: "0 \<le> roundToDouble s1" by (rule roundToDouble_nonneg [OF assms(1)])
  have step: "dge (toDouble (2 * roundToDouble s2)) (toDouble (2 * roundToDouble s1))"
    using le r1 by (intro toDouble_mono) simp_all
  have nonneg2: "toDouble (2 * roundToDouble s2) \<noteq> NotANumber"
    "toDouble (2 * roundToDouble s1) \<noteq> NotANumber"
    by (simp_all add: toDouble_def Let_def)
  show ?thesis
    using step le r1 overflowThreshold_pos nonneg2
    by (cases "overflowThreshold \<le> roundToDouble s2"; cases "overflowThreshold \<le> roundToDouble s1")
       (auto simp: toDouble_def [of s1] toDouble_def [of s2] Let_def dge_PlusInfinity)
qed

lemma density_antitone:
  assumes "0 \<le> n"
    and "P1 = PlusInfinity \<or> (\<exists>p. P1 = Finite p \<and> 0 < p)"
    and "P2 = PlusInfinity \<or> (\<exists>p. P2 = Finite p \<and> 0 < p)"
    and "dge P2 P1"
  shows "dge (ddiv (Finite n) P1) (ddiv (Finite n) P2)"
proof (cases P2)
  case (Finite p2)
  with assms(3) have p2: "0 < p2" by simp
  from Finite assms(2,4) obtain p1 where P1: "P1 = Finite p1" and p1: "0 < p1" and le: "p1 \<le> p2"
    by auto
  from assms(1) p1 p2 le have "0 \<le> n / p2" "n / p2 \<le> n / p1"
    by (simp_all add: divide_left_mono)
  then have "dge (toDouble (n / p1)) (toDouble (n / p2))" by (rule toDouble_mono)
  with Finite P1 p1 p2 show ?thesis by simp
next
  case PlusInfinity
  show ?thesis
  proof (cases P1)
    case (Finite p1)
    with assms(2) have "0 < p1" by simp
    with assms(1) have "0 \<le> n / p1" by simp
    from toDouble_nonneg [OF this] Finite PlusInfinity \<open>0 < p1\<close> show ?thesis by auto
  qed (use assms(2) PlusInfinity in simp_all)
qed (use assms(3) in simp_all)

lemma density_zero:
  assumes "P = PlusInfinity \<or> (\<exists>p. P = Finite p \<and> 0 < p)"
  shows "ddiv (Finite 0) P = Finite 0"
  using assms by (auto simp: toDouble_zero)

lemma validDimensions_sum:
  assumes "validDimensions config"
  shows "2 powr - 1074 \<le> dim_length (dimensions config) + dim_width (dimensions config)"
proof -
  from assms have "2 powr - 1074 \<le> dim_length (dimensions config)"
    by (intro isDouble_pos_ge) (simp_all add: validDimensions_def)
  moreover from assms have "0 < dim_width (dimensions config)"
    by (simp add: validDimensions_def)
  ultimately show ?thesis by linarith
qed

lemma computed_perimeter_mono:
  assumes "validDimensions c1"
    and "dim_length (dimensions c1) + dim_width (dimensions c1)
         \<le> dim_length (dimensions c2) + dim_width (dimensions c2)"
  shows "dge (dmul (Finite 2) (dadd (Finite (dim_length (dimensions c2)))
                                    (Finite (dim_width (dimensions c2)))))
             (dmul (Finite 2) (dadd (Finite (dim_length (dimensions c1)))
                                    (Finite (dim_width (dimensions c1)))))"
proof -
  have "0 \<le> dim_length (dimensions c1) + dim_width (dimensions c1)"
    using assms(1) by (simp add: validDimensions_def)
  from perimeter_mono [OF this assms(2)] show ?thesis by simp
qed

lemma computed_perimeter_less:
  assumes "validDimensions c2"
    and "\<not> dge (dmul (Finite 2) (dadd (Finite (dim_length (dimensions c1)))
                                      (Finite (dim_width (dimensions c1)))))
               (dmul (Finite 2) (dadd (Finite (dim_length (dimensions c2)))
                                      (Finite (dim_width (dimensions c2)))))"
  shows "2 * (dim_length (dimensions c1) + dim_width (dimensions c1))
         < 2 * (dim_length (dimensions c2) + dim_width (dimensions c2))"
  using computed_perimeter_mono [OF assms(1), of c1] assms(2) by fastforce

lemma double_small_integers:
  "toDouble 2 = Finite 2" "toDouble 3 = Finite 3" "toDouble 4 = Finite 4"
  "toDouble 5 = Finite 5" "toDouble 6 = Finite 6" "toDouble 10 = Finite 10"
  "toDouble 20 = Finite 20" "toDouble 40 = Finite 40" "toDouble 80 = Finite 80"
  using toDouble_eq [of 2 1 "2 * 2 ^ 51"] toDouble_eq [of 3 1 "3 * 2 ^ 51"]
    toDouble_eq [of 4 2 "4 * 2 ^ 50"] toDouble_eq [of 5 2 "5 * 2 ^ 50"]
    toDouble_eq [of 6 2 "6 * 2 ^ 50"] toDouble_eq [of 10 3 "10 * 2 ^ 49"]
    toDouble_eq [of 20 4 "20 * 2 ^ 48"] toDouble_eq [of 40 5 "40 * 2 ^ 47"]
    toDouble_eq [of 80 6 "80 * 2 ^ 46"]
  by (simp_all add: powr_neg_numeral)

lemma double_fifth:
  "toDouble (1 / 5) = Finite (3602879701896397 / 18014398509481984)"
  using toDouble_eq [of "1 / 5" "- 3" 7205759403792794]
  by (simp add: powr_neg_numeral)

lemma double_near_four:
  "toDouble (4503599627370495 / 2251799813685248) = Finite (4503599627370495 / 2251799813685248)"
  "toDouble (4503599627370495 / 1125899906842624) = Finite (4503599627370495 / 1125899906842624)"
  "toDouble (9007199254740991 / 4503599627370496) = Finite (9007199254740991 / 4503599627370496)"
  "toDouble (9007199254740991 / 2251799813685248) = Finite (9007199254740991 / 2251799813685248)"
  using toDouble_eq [of "4503599627370495 / 2251799813685248" 0 9007199254740990]
    toDouble_eq [of "4503599627370495 / 1125899906842624" 1 9007199254740990]
    toDouble_eq [of "9007199254740991 / 4503599627370496" 0 9007199254740991]
    toDouble_eq [of "9007199254740991 / 2251799813685248" 1 9007199254740991]
  by (simp_all add: powr_neg_numeral)

lemma double_near_quarter:
  "toDouble (1125899906842624 / 4503599627370495)
   = Finite (4503599627370497 / 18014398509481984)"
  "toDouble (2251799813685248 / 9007199254740991)
   = Finite (4503599627370497 / 18014398509481984)"
  using toDouble_eq [of "1125899906842624 / 4503599627370495" "- 2" 4503599627370497]
    toDouble_eq [of "2251799813685248 / 9007199254740991" "- 2" 4503599627370497]
  by (simp_all add: powr_neg_numeral)

text \<open>
  Claim C7 says that with the sensor count and the safety level fixed, a strictly larger
  perimeter gives a strictly smaller density. With no sensor the density is 0 at both
  perimeters: here 40 and 80. With one sensor the two quotients can round to the same
  double: here the widths are \<open>1 - 2 powr -51\<close> and \<open>1 - 2 powr -52\<close> at length 1,
  the perimeters are the two largest doubles below 4, and both densities are
  \<open>(2 ^ 52 + 1) / 2 ^ 54\<close>.
\<close>

theorem density_not_strictly_decreasing:
  "(2 * (10 + 10) :: real) < 2 * (20 + 20)
   \<and> density (fst (checkSensorQuantity
        \<lparr>cfg_type = ''soil'', safetyLevel = 1,
         dimensions = \<lparr>dim_length = 10, dim_width = 10, dim_depth = 5\<rparr>\<rparr> [] initialResults))
     = Finite 0
   \<and> density (fst (checkSensorQuantity
        \<lparr>cfg_type = ''soil'', safetyLevel = 1,
         dimensions = \<lparr>dim_length = 20, dim_width = 20, dim_depth = 5\<rparr>\<rparr> [] initialResults))
     = Finite 0
   \<and> (2 * (1 + 2251799813685247 / 2251799813685248) :: real)
       < 2 * (1 + 4503599627370495 / 4503599627370496)
   \<and> density (fst (checkSensorQuantity
        \<lparr>cfg_type = ''soil'', safetyLevel = 1,
         dimensions = \<lparr>dim_length = 1, dim_width = 2251799813685247 / 2251799813685248,
                       dim_depth = 5\<rparr>\<rparr>
        [\<lparr>sensor_type = ''water-level'',
          sensor_position = \<lparr>pos_x = 1, pos_y = 0, pos_z = 2\<rparr>, sensor_id = 0\<rparr>]
        initialResults))
     = Finite (4503599627370497 / 18014398509481984)
   \<and> density (fst (checkSensorQuantity
        \<lparr>cfg_type = ''soil'', safetyLevel = 1,
         dimensions = \<lparr>dim_length = 1, dim_width = 4503599627370495 / 4503599627370496,
                       dim_depth = 5\<rparr>\<rparr>
        [\<lparr>sensor_type = ''water-level'',
          sensor_position = \<lparr>pos_x = 1, pos_y = 0, pos_z = 2\<rparr>, sensor_id = 0\<rparr>]
        initialResults))
     = Finite (4503599627370497 / 18014398509481984)"
  by (simp add: checkSensorQuantity_def Let_def double_small_integers double_near_four
      double_near_quarter toDouble_zero)

text \<open>
  Claim C7, amended. For two configurations whose lengths and widths are positive doubles,
  with the same safety level and the same number of sensors, the second with the strictly
  larger perimeter \<open>2 * (length + width)\<close>: the density of the second run is less than or
  equal to the density of the first; with no sensor both densities are 0; and if the second
  run is adequate then so is the first, so the flag never goes from false to true. It can
  go from true to false: four sensors at level 3 are adequate on the 3 by 2 pit and not on
  the 6 by 4 pit. (The perimeters are compared as real numbers; by
  \<open>computed_perimeter_less\<close> this is the case whenever the computed perimeters are
  strictly ordered.)
\<close>

theorem density_monotone:
  assumes "validDimensions c1" and "validDimensions c2"
    and "safetyLevel c1 = safetyLevel c2"
    and "length s1 = length s2"
    and "2 * (dim_length (dimensions c1) + dim_width (dimensions c1))
         < 2 * (dim_length (dimensions c2) + dim_width (dimensions c2))"
  shows "dge (density (fst (checkSensorQuantity c1 s1 r1)))
             (density (fst (checkSensorQuantity c2 s2 r2)))
       \<and> (length s1 = 0
            \<longrightarrow> density (fst (checkSensorQuantity c1 s1 r1)) = Finite 0
              \<and> density (fst (checkSensorQuantity c2 s2 r2)) = Finite 0)
       \<and> (adequate (fst (checkSensorQuantity c2 s2 r2))
            \<longrightarrow> adequate (fst (checkSensorQuantity c1 s1 r1)))
       \<and> adequate (fst (checkSensorQuantity
            \<lparr>cfg_type = ''soil'', safetyLevel = 3,
             dimensions = \<lparr>dim_length = 3, dim_width = 2, dim_depth = 5\<rparr>\<rparr>
            (replicate 4 \<lparr>sensor_type = ''water-level'',
               sensor_position = \<lparr>pos_x = 1, pos_y = 0, pos_z = 2\<rparr>, sensor_id = 0\<rparr>)
            initialResults))
       \<and> \<not> adequate (fst (checkSensorQuantity
            \<lparr>cfg_type = ''soil'', safetyLevel = 3,
             dimensions = \<lparr>dim_length = 6, dim_width = 4, dim_depth = 5\<rparr>\<rparr>
            (replicate 4 \<lparr>sensor_type = ''water-level'',
               sensor_position = \<lparr>pos_x = 1, pos_y = 0, pos_z = 2\<rparr>, sensor_id = 0\<rparr>)
            initialResults))"
proof -
  define P1 where "P1 = dmul (Finite 2) (dadd (Finite (dim_length (dimensions c1)))
                                              (Finite (dim_width (dimensions c1))))"
  define P2 where "P2 = dmul (Finite 2) (dadd (Finite (dim_length (dimensions c2)))
                                              (Finite (dim_width (dimensions c2))))"
  define n where "n = real (length s1)"
  define T where "T = dmul (calculateRecommendedDensity c1) (toDouble 0.8)"
  have T2: "dmul (calculateRecommendedDensity c2) (toDouble 0.8) = T"
    using assms(3) by (simp add: T_def calculateRecommendedDensity_def)
  have q1: "density (fst (checkSensorQuantity c1 s1 r1)) = ddiv (Finite n) P1"
    "adequate (fst (checkSensorQuantity c1 s1 r1)) = dge (ddiv (Finite n) P1) T"
    by (simp_all add: checkSensorQuantity_def Let_def P1_def n_def T_def)
  have q2: "density (fst (checkSensorQuantity c2 s2 r2)) = ddiv (Finite n) P2"
    "adequate (fst (checkSensorQuantity c2 s2 r2)) = dge (ddiv (Finite n) P2) T"
    using assms(4) T2 by (simp_all add: checkSensorQuantity_def Let_def P2_def n_def)
  have pos1: "P1 = PlusInfinity \<or> (\<exists>p. P1 = Finite p \<and> 0 < p)"
    using perimeter_pos [OF validDimensions_sum [OF assms(1)]] by (simp add: P1_def)
  have pos2: "P2 = PlusInfinity \<or> (\<exists>p. P2 = Finite p \<and> 0 < p)"
    using perimeter_pos [OF validDimensions_sum [OF assms(2)]] by (simp add: P2_def)
  have "dge P2 P1"
    unfolding P1_def P2_def using assms(5) by (intro computed_perimeter_mono assms(1)) simp
  with pos1 pos2 have mono: "dge (ddiv (Finite n) P1) (ddiv (Finite n) P2)"
    by (intro density_antitone) (simp_all add: n_def)
  have zero: "ddiv (Finite n) P1 = Finite 0 \<and> ddiv (Finite n) P2 = Finite 0" if "length s1 = 0"
    using that density_zero [OF pos1] density_zero [OF pos2] by (simp add: n_def)
  have adequate: "dge (ddiv (Finite n) P1) T" if "dge (ddiv (Finite n) P2) T"
    using mono that by (rule dge_trans)
  have flip: "adequate (fst (checkSensorQuantity
            \<lparr>cfg_type = ''soil'', safetyLevel = 3,
             dimensions = \<lparr>dim_length = 3, dim_width = 2, dim_depth = 5\<rparr>\<rparr>
            (replicate 4 \<lparr>sensor_type = ''water-level'',
               sensor_position = \<lparr>pos_x = 1, pos_y = 0, pos_z = 2\<rparr>, sensor_id = 0\<rparr>)
            initialResults))"
    "\<not> adequate (fst (checkSensorQuantity
            \<lparr>cfg_type = ''soil'', safetyLevel = 3,
             dimensions = \<lparr>dim_length = 6, dim_width = 4, dim_depth = 5\<rparr>\<rparr>
            (replicate 4 \<lparr>sensor_type = ''water-level'',
               sensor_position = \<lparr>pos_x = 1, pos_y = 0, pos_z = 2\<rparr>, sensor_id = 0\<rparr>)
            initialResults))"
    by (simp_all add: checkSensorQuantity_def Let_def calculateRecommendedDensity_def
        baseDensity_def double_small_integers double_literals double_fifth
        double_threshold_level_3)
  have "dge (density (fst (checkSensorQuantity c1 s1 r1)))
             (density (fst (checkSensorQuantity c2 s2 r2)))
       \<and> (length s1 = 0
            \<longrightarrow> density (fst (checkSensorQuantity c1 s1 r1)) = Finite 0
              \<and> density (fst (checkSensorQuantity c2 s2 r2)) = Finite 0)
       \<and> (adequate (fst (checkSensorQuantity c2 s2 r2))
            \<longrightarrow> adequate (fst (checkSensorQuantity c1 s1 r1)))"
    unfolding q1 q2 using mono zero adequate by blast
  with flip show ?thesis by blast
qed

text \<open>
  The property at four sensors, level 3, on the 3 by 2 and the 6 by 4 pit.
\<close>

theorem density_monotone_witness:
  "dge (density (fst (checkSensorQuantity
        \<lparr>cfg_type = ''soil'', safetyLevel = 3,
         dimensions = \<lparr>dim_length = 3, dim_width = 2, dim_depth = 5\<rparr>\<rparr>
        (replicate 4 \<lparr>sensor_type = ''water-level'',
           sensor_position = \<lparr>pos_x = 1, pos_y = 0, pos_z = 2\<rparr>, sensor_id = 0\<rparr>)
        initialResults)))
       (density (fst (checkSensorQuantity
        \<lparr>cfg_type = ''soil'', safetyLevel = 3,
         dimensions = \<lparr>dim_length = 6, dim_width = 4, dim_depth = 5\<rparr>\<rparr>
        (replicate 4 \<lparr>sensor_type = ''water-level'',
           sensor_position = \<lparr>pos_x = 1, pos_y = 0, pos_z = 2\<rparr>, sensor_id = 0\<rparr>)
        initialResults)))
   \<and> adequate (fst (checkSensorQuantity
        \<lparr>cfg_type = ''soil'', safetyLevel = 3,
         dimensions = \<lparr>dim_length = 3, dim_width = 2, dim_depth = 5\<rparr>\<rparr>
        (replicate 4 \<lparr>sensor_type = ''water-level'',
           sensor_position = \<lparr>pos_x = 1, pos_y = 0, pos_z = 2\<rparr>, sensor_id = 0\<rparr>)
        initialResults))
   \<and> \<not> adequate (fst (checkSensorQuantity
        \<lparr>cfg_type = ''soil'', safetyLevel = 3,
         dimensions = \<lparr>dim_length = 6, dim_width = 4, dim_depth = 5\<rparr>\<rparr>
        (replicate 4 \<lparr>sensor_type = ''water-level'',
           sensor_position = \<lparr>pos_x = 1, pos_y = 0, pos_z = 2\<rparr>, sensor_id = 0\<rparr>)
        initialResults))"
proof -
  let ?c1 = "\<lparr>cfg_type = ''soil'', safetyLevel = 3,
         dimensions = \<lparr>dim_length = 3, dim_width = 2, dim_depth = 5\<rparr>\<rparr>"
  let ?c2 = "\<lparr>cfg_type = ''soil'', safetyLevel = 3,
         dimensions = \<lparr>dim_length = 6, dim_width = 4, dim_depth = 5\<rparr>\<rparr>"
  let ?s = "replicate 4 \<lparr>sensor_type = ''water-level'',
           sensor_position = \<lparr>pos_x = 1, pos_y = 0, pos_z = 2\<rparr>, sensor_id = 0\<rparr>"
  have valid: "validDimensions ?c1" "validDimensions ?c2"
    by (simp_all add: validDimensions_def isDouble_def double_small_integers)
  have same: "safetyLevel ?c1 = safetyLevel ?c2" "length ?s = length ?s" by simp_all
  have larger: "2 * (dim_length (dimensions ?c1) + dim_width (dimensions ?c1))
         < 2 * (dim_length (dimensions ?c2) + dim_width (dimensions ?c2))"
    by simp
  from density_monotone [OF valid same larger, of initialResults initialResults]
  show ?thesis by blast
qed













end
